theory Spec2Isabelle
  imports Main "HOL-Library.Word" "HOL-Library.Sublist"
begin

section \<open>pgxtest: a disposable PostgreSQL server for tests\<close>

text \<open>
  A shallow embedding of \<^verbatim>\<open>pgtest.go\<close>. The Go code drives the operating system
  (files, one child process, two pipes) and the pgx pool library. Every such call is
  modelled as a step on an explicit \<open>world\<close>: it appends an event to a trace, changes
  the part of the world it touches, and takes its outcome (the Go \<^verbatim>\<open>error\<close> it returns)
  from an environment record \<open>env\<close> that stands for what the machine answers.
  A Go \<^verbatim>\<open>error\<close> is its message, \<^verbatim>\<open>nil\<close> is \<open>None\<close>; a run-time panic is the
  result \<open>Panic\<close>.
\<close>

subsection \<open>Errors, results, paths\<close>

type_synonym error = string

datatype 'a outcome = Ret 'a | Panic string

definition nl :: string where
  "nl = [CHR 0x0A]"

text \<open>
  \<^verbatim>\<open>path.Clean\<close> / \<^verbatim>\<open>filepath.Clean\<close> on Unix, after the rules of their documentation:
  runs of slashes collapse, \<^verbatim>\<open>.\<close> elements vanish, an inner \<^verbatim>\<open>..\<close> takes the element
  before it with it, \<^verbatim>\<open>..\<close> at the start of a rooted path vanishes, and the empty
  result is \<^verbatim>\<open>.\<close>.
\<close>

fun split_slash :: "string \<Rightarrow> string list" where
  "split_slash [] = [[]]"
| "split_slash (c # cs) =
     (if c = CHR ''/'' then [] # split_slash cs
      else (case split_slash cs of
              [] \<Rightarrow> [[c]]
            | x # xs \<Rightarrow> (c # x) # xs))"

fun join_slash :: "string list \<Rightarrow> string" where
  "join_slash [] = []"
| "join_slash [x] = x"
| "join_slash (x # y # ys) = x @ ''/'' @ join_slash (y # ys)"

fun clean_elems :: "bool \<Rightarrow> string list \<Rightarrow> string list \<Rightarrow> string list" where
  "clean_elems rooted out [] = rev out"
| "clean_elems rooted out (c # cs) =
     (if c = [] \<or> c = ''.'' then clean_elems rooted out cs
      else if c = ''..'' then
        (case out of
           t # ts \<Rightarrow>
             (if t \<noteq> ''..'' then clean_elems rooted ts cs
              else if rooted then clean_elems rooted out cs
              else clean_elems rooted (c # out) cs)
         | [] \<Rightarrow>
             (if rooted then clean_elems rooted out cs
              else clean_elems rooted (c # out) cs))
      else clean_elems rooted (c # out) cs)"

definition path_Clean :: "string \<Rightarrow> string" where
  "path_Clean p =
     (if p = [] then ''.''
      else
        (let rooted = (hd p = CHR ''/'');
             out = clean_elems rooted [] (split_slash p)
         in if rooted then CHR ''/'' # join_slash out
            else if out = [] then ''.''
            else join_slash out))"

text \<open>
  \<^verbatim>\<open>filepath.Join\<close>: leading empty elements are dropped, the rest is joined with
  slashes and cleaned; with no non-empty element the result is the empty string.
\<close>

definition filepath_Join :: "string list \<Rightarrow> string" where
  "filepath_Join elems =
     (case dropWhile (\<lambda>e. e = []) elems of
        [] \<Rightarrow> []
      | es \<Rightarrow> path_Clean (join_slash es))"

text \<open>\<^verbatim>\<open>path.Dir\<close>: everything up to the last slash, cleaned.\<close>

definition path_Dir :: "string \<Rightarrow> string" where
  "path_Dir p = path_Clean (rev (dropWhile (\<lambda>c. c \<noteq> CHR ''/'') (rev p)))"

subsection \<open>Data of the program\<close>

text \<open>\<^verbatim>\<open>type Config struct\<close>.\<close>

record Config =
  BinDir :: string
  Dir :: string
  AdditionalArgs :: "string list"

text \<open>
  An \<^verbatim>\<open>*exec.Cmd\<close> as \<^verbatim>\<open>exec.Command\<close> builds it: \<^verbatim>\<open>Args\<close> is the command name
  followed by the arguments. Its \<^verbatim>\<open>Process\<close> field lives in the world (\<open>proc\<close>).
\<close>

record Cmd =
  Path :: string
  Args :: "string list"
  Env :: "string list"

datatype stream = StderrPipe | StdoutPipe

datatype signal = Interrupt | Kill

text \<open>\<^verbatim>\<open>type PG struct\<close>. A pool is named by the URL it was configured from.\<close>

record PG =
  dir :: string
  cmd :: Cmd
  Pool :: string
  Host :: string
  User :: string
  Name :: string
  stderr :: "stream option"
  stdout :: "stream option"

subsection \<open>The world outside the program\<close>

datatype stat_res = StatDir | StatFile | StatNotExist | StatErr error

text \<open>
  The child process of the server command: \<open>NotStarted\<close> is \<^verbatim>\<open>cmd.Process == nil\<close>
  (before a successful \<^verbatim>\<open>cmd.Start\<close>), \<open>Running\<close> is started and not yet waited
  for, \<open>Finished\<close> is after \<^verbatim>\<open>cmd.Wait\<close> has returned.
\<close>

datatype proc_state = NotStarted | Running | Finished

datatype event =
    EvMkdirTemp string
  | EvMkdirAll string
  | EvCombinedOutput Cmd
  | EvStderrPipe
  | EvStdoutPipe
  | EvStart Cmd
  | EvNewPool string
  | EvAcquire string
  | EvSleep int
  | EvExec string
  | EvRelease
  | EvPoolClose string
  | EvSignal signal
  | EvWait
  | EvReadAll stream
  | EvClose stream
  | EvReadDir string
  | EvRemove string
  | EvRemoveAll string

text \<open>What the machine answers; one field for each library call of the source.\<close>

record env =
  look_path :: "string \<Rightarrow> error + string"
  stat :: "string \<Rightarrow> stat_res"
  read_dir :: "string \<Rightarrow> error + (string \<times> bool) list"
  environ :: "string list"
  mkdir_temp :: "error + string"
  mkdir_all :: "string \<Rightarrow> error option"
  combined_output :: "Cmd \<Rightarrow> string \<times> error option"
  stderr_pipe :: "error option"
  stdout_pipe :: "error option"
  cmd_start :: "error option"
  parse_config :: "string \<Rightarrow> error option"
  new_pool :: "string \<Rightarrow> error option"
  acquire :: "nat \<Rightarrow> error option"
  exec_sql :: "string \<Rightarrow> error option"
  signal_err :: "signal \<Rightarrow> error option"
  wait_err :: "error option"
  read_all :: "stream \<Rightarrow> string"
  remove_ok :: "string \<Rightarrow> bool"
  remove_all_ok :: "string \<Rightarrow> bool"

text \<open>
  The state the program changes: the paths that exist on disk, the server process, the
  pipes of the server whose read end has been closed, the number of
  \<^verbatim>\<open>pool.Acquire\<close> calls made so far, and the trace of library calls, oldest first.
\<close>

record world =
  fs :: "string list"
  proc :: proc_state
  closed :: "stream list"
  n_acquire :: nat
  trace :: "event list"

definition emit :: "event \<Rightarrow> world \<Rightarrow> world" where
  "emit e w = w\<lparr>trace := trace w @ [e]\<rparr>"

subsection \<open>Library calls as steps on the world\<close>

text \<open>
  \<^verbatim>\<open>os.MkdirAll\<close> creates the directory and its missing parents: the paths
  \<^verbatim>\<open>/a\<close>, \<^verbatim>\<open>/a/b\<close>, \<^verbatim>\<open>/a/b/c\<close> for \<^verbatim>\<open>/a/b/c\<close>.
\<close>

definition ancestors :: "string \<Rightarrow> string list" where
  "ancestors p =
     (let elems = split_slash p
      in filter (\<lambda>q. q \<noteq> []) (map (\<lambda>k. join_slash (take k elems)) [1 ..< Suc (length elems)]))"

text \<open>A path lies in the tree of \<open>d\<close> when it is \<open>d\<close> (cleaned) or below it.\<close>

definition in_tree :: "string \<Rightarrow> string \<Rightarrow> bool" where
  "in_tree d q =
     (let d' = path_Clean d
      in q = d' \<or> prefix (if d' = ''/'' then d' else d' @ ''/'') q)"

definition os_MkdirTemp :: "env \<Rightarrow> world \<Rightarrow> (error + string) \<times> world" where
  "os_MkdirTemp en w =
     (case mkdir_temp en of
        Inl e \<Rightarrow> (Inl e, emit (EvMkdirTemp []) w)
      | Inr d \<Rightarrow> (Inr d, emit (EvMkdirTemp d) (w\<lparr>fs := fs w @ [d]\<rparr>)))"

definition os_MkdirAll :: "env \<Rightarrow> string \<Rightarrow> world \<Rightarrow> error option \<times> world" where
  "os_MkdirAll en p w =
     (case mkdir_all en p of
        Some e \<Rightarrow> (Some e, emit (EvMkdirAll p) w)
      | None \<Rightarrow>
          (None, emit (EvMkdirAll p)
                   (w\<lparr>fs := fs w @ filter (\<lambda>q. q \<notin> set (fs w)) (ancestors p)\<rparr>)))"

text \<open>
  \<^verbatim>\<open>os.RemoveAll\<close> and \<^verbatim>\<open>os.Remove\<close>: the source drops their results, so the model
  has no branch on them; whether the removal takes place is the machine's answer.
  \<^verbatim>\<open>RemoveAll("")\<close> does nothing.
\<close>

definition os_RemoveAll :: "env \<Rightarrow> string \<Rightarrow> world \<Rightarrow> world" where
  "os_RemoveAll en p w =
     emit (EvRemoveAll p)
       (if p \<noteq> [] \<and> remove_all_ok en p
        then w\<lparr>fs := filter (\<lambda>q. \<not> in_tree p q) (fs w)\<rparr>
        else w)"

definition os_Remove :: "env \<Rightarrow> string \<Rightarrow> world \<Rightarrow> world" where
  "os_Remove en p w =
     emit (EvRemove p)
       (if remove_ok en p then w\<lparr>fs := filter (\<lambda>q. q \<noteq> p) (fs w)\<rparr> else w)"

definition os_ReadDir ::
  "env \<Rightarrow> string \<Rightarrow> world \<Rightarrow> (error + (string \<times> bool) list) \<times> world" where
  "os_ReadDir en p w = (read_dir en p, emit (EvReadDir p) w)"

text \<open>
  \<^verbatim>\<open>cmd.Process.Signal\<close>: with \<^verbatim>\<open>cmd.Process == nil\<close> the call dereferences a nil
  pointer and panics; on a process that has been waited for it returns
  \<^verbatim>\<open>os.ErrProcessDone\<close>; otherwise the kernel decides.
\<close>

definition Process_Signal :: "env \<Rightarrow> signal \<Rightarrow> world \<Rightarrow> error option outcome \<times> world" where
  "Process_Signal en sig w =
     (case proc w of
        NotStarted \<Rightarrow> (Panic ''invalid memory address or nil pointer dereference'', w)
      | Running \<Rightarrow> (Ret (signal_err en sig), emit (EvSignal sig) w)
      | Finished \<Rightarrow> (Ret (Some ''os: process already finished''), emit (EvSignal sig) w))"

text \<open>Both pipes of the command closed, on top of what is closed already.\<close>

definition close_both :: "stream list \<Rightarrow> stream list" where
  "close_both cs = List.insert StdoutPipe (List.insert StderrPipe cs)"

text \<open>
  \<^verbatim>\<open>cmd.Wait\<close> returns once the process has exited; its error is the exit status.
  A wait that never returns is outside the model (then the caller does not return
  either). As the documentation of \<^verbatim>\<open>StdoutPipe\<close> and \<^verbatim>\<open>StderrPipe\<close> says,
  \<^verbatim>\<open>Wait\<close> closes both pipes after seeing the command exit.
\<close>

definition cmd_Wait :: "env \<Rightarrow> world \<Rightarrow> error option \<times> world" where
  "cmd_Wait en w =
     (case proc w of
        NotStarted \<Rightarrow> (Some ''exec: not started'', emit EvWait w)
      | Running \<Rightarrow>
          (wait_err en, emit EvWait (w\<lparr>proc := Finished, closed := close_both (closed w)\<rparr>))
      | Finished \<Rightarrow> (Some ''exec: Wait was already called'', emit EvWait w))"

text \<open>\<^verbatim>\<open>cmd.Start\<close>; when it fails it closes the pipes it was given.\<close>

definition cmd_Start :: "env \<Rightarrow> Cmd \<Rightarrow> world \<Rightarrow> error option \<times> world" where
  "cmd_Start en c w =
     (case proc w of
        NotStarted \<Rightarrow>
          (case cmd_start en of
             Some e \<Rightarrow> (Some e, emit (EvStart c) (w\<lparr>closed := close_both (closed w)\<rparr>))
           | None \<Rightarrow> (None, emit (EvStart c) (w\<lparr>proc := Running\<rparr>)))
      | Running \<Rightarrow> (Some ''exec: already started'', emit (EvStart c) w)
      | Finished \<Rightarrow> (Some ''exec: already started'', emit (EvStart c) w))"

text \<open>\<^verbatim>\<open>cmd.StderrPipe\<close> and \<^verbatim>\<open>cmd.StdoutPipe\<close>: a new pipe is open.\<close>

definition cmd_StderrPipe :: "env \<Rightarrow> world \<Rightarrow> error option \<times> world" where
  "cmd_StderrPipe en w =
     (case stderr_pipe en of
        Some e \<Rightarrow> (Some e, emit EvStderrPipe w)
      | None \<Rightarrow> (None, emit EvStderrPipe (w\<lparr>closed := removeAll StderrPipe (closed w)\<rparr>)))"

definition cmd_StdoutPipe :: "env \<Rightarrow> world \<Rightarrow> error option \<times> world" where
  "cmd_StdoutPipe en w =
     (case stdout_pipe en of
        Some e \<Rightarrow> (Some e, emit EvStdoutPipe w)
      | None \<Rightarrow> (None, emit EvStdoutPipe (w\<lparr>closed := removeAll StdoutPipe (closed w)\<rparr>)))"

definition cmd_CombinedOutput :: "env \<Rightarrow> Cmd \<Rightarrow> world \<Rightarrow> (string \<times> error option) \<times> world" where
  "cmd_CombinedOutput en c w = (combined_output en c, emit (EvCombinedOutput c) w)"

definition pgxpool_NewWithConfig :: "env \<Rightarrow> string \<Rightarrow> world \<Rightarrow> error option \<times> world" where
  "pgxpool_NewWithConfig en url w = (new_pool en url, emit (EvNewPool url) w)"

text \<open>The \<open>n\<close>-th call of \<^verbatim>\<open>pool.Acquire\<close> gets the \<open>n\<close>-th answer of the machine.\<close>

definition pool_Acquire :: "env \<Rightarrow> string \<Rightarrow> world \<Rightarrow> error option \<times> world" where
  "pool_Acquire en pool w =
     (acquire en (n_acquire w), emit (EvAcquire pool) (w\<lparr>n_acquire := Suc (n_acquire w)\<rparr>))"

definition conn_Exec :: "env \<Rightarrow> string \<Rightarrow> world \<Rightarrow> error option \<times> world" where
  "conn_Exec en sql w = (exec_sql en sql, emit (EvExec sql) w)"

definition conn_Release :: "world \<Rightarrow> world" where
  "conn_Release w = emit EvRelease w"

definition pool_Close :: "string \<Rightarrow> world \<Rightarrow> world" where
  "pool_Close pool w = emit (EvPoolClose pool) w"

text \<open>
  \<^verbatim>\<open>io.ReadAll\<close> on a pipe of the server. On an open pipe it returns what the server
  has written to it (\<open>read_all\<close>, the machine's answer). On a pipe whose read end is
  closed the read fails at once and no byte is returned; the source drops the error.
\<close>

definition io_ReadAll :: "env \<Rightarrow> stream \<Rightarrow> world \<Rightarrow> string \<times> world" where
  "io_ReadAll en s w =
     (if s \<in> set (closed w) then [] else read_all en s, emit (EvReadAll s) w)"

text \<open>\<^verbatim>\<open>Close\<close> on a pipe; closing it again only returns an error, which is dropped.\<close>

definition stream_Close :: "stream \<Rightarrow> world \<Rightarrow> world" where
  "stream_Close s w = emit (EvClose s) (w\<lparr>closed := List.insert s (closed w)\<rparr>)"

definition time_Sleep :: "int \<Rightarrow> world \<Rightarrow> world" where
  "time_Sleep d w = emit (EvSleep d) w"

subsection \<open>The functions of \<^verbatim>\<open>pgtest.go\<close>\<close>

text \<open>\<^verbatim>\<open>postgresqlDBConf\<close>: the pool configuration is represented by its URL.\<close>

definition postgresqlDBConf :: "env \<Rightarrow> string \<Rightarrow> string \<Rightarrow> error + string" where
  "postgresqlDBConf en sockDir dbName =
     (let url = ''postgres://test@localhost/'' @ dbName @ ''?host='' @ sockDir
      in case parse_config en url of
           Some e \<Rightarrow> Inl e
         | None \<Rightarrow> Inr url)"

text \<open>
  \<^verbatim>\<open>retry\<close>: \<^verbatim>\<open>attempts\<close> is a Go \<^verbatim>\<open>int\<close> (64 bits, signed, wrapping); the interval
  is a \<^verbatim>\<open>time.Duration\<close> in nanoseconds.
\<close>

function retry ::
  "(world \<Rightarrow> error option \<times> world) \<Rightarrow> 64 word \<Rightarrow> int \<Rightarrow> world \<Rightarrow> error option \<times> world" where
  "retry fn attempts interval w =
     (case fn w of
        (None, w1) \<Rightarrow> (None, w1)
      | (Some err, w1) \<Rightarrow>
          (let attempts' = attempts - 1
           in if attempts' \<le>s 0 then (Some err, w1)
              else retry fn attempts' interval (time_Sleep interval w1)))"
  by pat_completeness auto

termination retry
proof (relation "measure (\<lambda>(fn, a, i, w). unat (a - 1))", goal_cases)
  case 1
  show ?case by simp
next
  case (2 fn attempts interval w x y err a')
  have nz: "a' \<noteq> 0"
    using 2 by auto
  have "unat (a' - 1) < unat a'"
    using nz by (simp add: unat_minus_one unat_gt_0)
  then show ?case
    using 2 by simp
qed

text \<open>
  \<^verbatim>\<open>createTestDB\<close>: the closure handed to \<^verbatim>\<open>retry\<close> is one \<^verbatim>\<open>pool.Acquire\<close>;
  the deferred \<^verbatim>\<open>conn.Release\<close> runs on both ways out once a connection is held.
\<close>

definition createTestDB :: "env \<Rightarrow> string \<Rightarrow> world \<Rightarrow> error option \<times> world" where
  "createTestDB en pool w =
     (case retry (pool_Acquire en pool) 1000 (10 * 1000000) w of
        (Some err, w1) \<Rightarrow> (Some err, w1)
      | (None, w1) \<Rightarrow>
          (case conn_Exec en ''CREATE DATABASE test'' w1 of
             (Some err, w2) \<Rightarrow> (Some err, conn_Release w2)
           | (None, w2) \<Rightarrow> (None, conn_Release w2)))"

text \<open>
  \<^verbatim>\<open>findBinPath\<close>, inner loop over the entries of one folder, in the order
  \<^verbatim>\<open>os.ReadDir\<close> lists them (sorted by file name). An entry is a name and
  \<^verbatim>\<open>IsDir()\<close>.
\<close>

fun scan_files :: "env \<Rightarrow> string \<Rightarrow> (string \<times> bool) list \<Rightarrow> string option" where
  "scan_files en folder [] = None"
| "scan_files en folder ((name, isDir) # files) =
     (if \<not> isDir \<and> ''initdb'' = name then Some (filepath_Join [folder])
      else if \<not> isDir then scan_files en folder files
      else
        (let binPath = filepath_Join [folder, name, ''bin'']
         in case stat en (filepath_Join [binPath, ''initdb'']) of
              StatDir \<Rightarrow> Some binPath
            | StatFile \<Rightarrow> Some binPath
            | StatNotExist \<Rightarrow> scan_files en folder files
            | StatErr e \<Rightarrow> scan_files en folder files))"

text \<open>
  The outer loop over the folders. When \<^verbatim>\<open>os.Stat\<close> fails with an error other than
  "does not exist", \<^verbatim>\<open>f\<close> is nil and \<^verbatim>\<open>f.IsDir()\<close> panics.
\<close>

fun scan_folders :: "env \<Rightarrow> string list \<Rightarrow> (error + string) outcome" where
  "scan_folders en [] = Ret (Inl ''Did not find PostgreSQL executables installed'')"
| "scan_folders en (folder # folders) =
     (case stat en folder of
        StatNotExist \<Rightarrow> scan_folders en folders
      | StatErr e \<Rightarrow> Panic ''invalid memory address or nil pointer dereference''
      | StatFile \<Rightarrow> scan_folders en folders
      | StatDir \<Rightarrow>
          (case read_dir en folder of
             Inl err \<Rightarrow> Ret (Inl err)
           | Inr files \<Rightarrow>
               (case scan_files en folder files of
                  Some found \<Rightarrow> Ret (Inr found)
                | None \<Rightarrow> scan_folders en folders)))"

definition findBinPath :: "env \<Rightarrow> string \<Rightarrow> (error + string) outcome" where
  "findBinPath en binDir =
     (let folders = [binDir, ''/usr/lib/postgresql/'']
      in if binDir = [] then
           (case look_path en ''initdb'' of
              Inr p \<Rightarrow> Ret (Inr (path_Dir p))
            | Inl err \<Rightarrow> scan_folders en folders)
         else scan_folders en folders)"

definition prepareCommand :: "env \<Rightarrow> string \<Rightarrow> string list \<Rightarrow> Cmd" where
  "prepareCommand en command args =
     \<lparr>Path = command, Args = command # args,
      Env = environ en @ [''LC_ALL=en_US.UTF-8'']\<rparr>"

text \<open>\<^verbatim>\<open>abort\<close>; \<^verbatim>\<open>fmt.Errorf\<close> with the four \<^verbatim>\<open>%s\<close> written out.\<close>

definition abort ::
  "env \<Rightarrow> string \<Rightarrow> Cmd \<Rightarrow> stream \<Rightarrow> stream \<Rightarrow> error \<Rightarrow> world \<Rightarrow> error outcome \<times> world" where
  "abort en msg c stderr' stdout' err w =
     (case Process_Signal en Interrupt w of
        (Panic s, w1) \<Rightarrow> (Panic s, w1)
      | (Ret _, w1) \<Rightarrow>
          (let (_, w2) = cmd_Wait en w1;
               (serr, w3) = io_ReadAll en stderr' w2;
               (sout, w4) = io_ReadAll en stdout' w3;
               w5 = stream_Close stderr' w4;
               w6 = stream_Close stdout' w5
           in (Ret (msg @ '': '' @ err @ nl @ ''OUT: '' @ sout @ nl @ ''ERR: '' @ serr), w6)))"

text \<open>The value \<^verbatim>\<open>return nil, abort(...)\<close> hands back.\<close>

definition fail_with :: "error outcome \<times> world \<Rightarrow> (error + PG) outcome \<times> world" where
  "fail_with r =
     (case r of
        (Panic s, w) \<Rightarrow> (Panic s, w)
      | (Ret e, w) \<Rightarrow> (Ret (Inl e), w))"

text \<open>\<^verbatim>\<open>Start\<close>.\<close>

definition Start :: "Config \<Rightarrow> env \<Rightarrow> world \<Rightarrow> (error + PG) outcome \<times> world" where
  "Start config en w =
     (case findBinPath en (BinDir config) of
        Panic s \<Rightarrow> (Panic s, w)
      | Ret (Inl err) \<Rightarrow> (Ret (Inl err), w)
      | Ret (Inr binPath) \<Rightarrow>
     (case (if Dir config = [] then os_MkdirTemp en w else (Inr (Dir config), w)) of
        (Inl err, w1) \<Rightarrow> (Ret (Inl err), w1)
      | (Inr dir', w1) \<Rightarrow>
     (let dataDir = filepath_Join [dir', ''data''];
          sockDir = filepath_Join [dir', ''sock'']
      in
     (case os_MkdirAll en dataDir w1 of
        (Some err, w2) \<Rightarrow> (Ret (Inl err), w2)
      | (None, w2) \<Rightarrow>
     (case os_MkdirAll en sockDir w2 of
        (Some err, w3) \<Rightarrow> (Ret (Inl err), w3)
      | (None, w3) \<Rightarrow>
     (let init = prepareCommand en (filepath_Join [binPath, ''initdb''])
                   [''-D'', dataDir, ''--no-sync'', ''--username=test'']
      in
     (case cmd_CombinedOutput en init w3 of
        ((out, Some err), w4) \<Rightarrow>
          (Ret (Inl (''Failed to initialize DB: '' @ err @ '' -> '' @ out)), w4)
      | ((out, None), w4) \<Rightarrow>
     (let args = [''-D'', dataDir, ''-k'', sockDir, ''-h'', [], ''-F''];
          args = (if length (AdditionalArgs config) > 0
                  then args @ AdditionalArgs config else args);
          c = prepareCommand en (filepath_Join [binPath, ''postgres'']) args
      in
     (case cmd_StderrPipe en w4 of
        (Some err, w5) \<Rightarrow> (Ret (Inl err), w5)
      | (None, w5) \<Rightarrow>
     (case cmd_StdoutPipe en w5 of
        (Some err, w6) \<Rightarrow> (Ret (Inl err), stream_Close StderrPipe w6)
      | (None, w6) \<Rightarrow>
     (case cmd_Start en c w6 of
        (Some err, w7) \<Rightarrow>
          fail_with (abort en ''Failed to start PostgreSQL'' c StderrPipe StdoutPipe err w7)
      | (None, w7) \<Rightarrow>
     (case postgresqlDBConf en sockDir ''postgres'' of
        Inl err \<Rightarrow>
          fail_with (abort en ''Failed to create pgx pool config'' c StderrPipe StdoutPipe err w7)
      | Inr postgresConf \<Rightarrow>
     (case pgxpool_NewWithConfig en postgresConf w7 of
        (Some err, w8) \<Rightarrow>
          fail_with (abort en ''Failed to connect to postgres DB'' c StderrPipe StdoutPipe err w8)
      | (None, w8) \<Rightarrow>
     (case createTestDB en postgresConf w8 of
        (Some err, w9) \<Rightarrow>
          fail_with (abort en ''Failed to create test DB'' c StderrPipe StdoutPipe err w9)
      | (None, w9) \<Rightarrow>
     (let w10 = pool_Close postgresConf w9
      in
     (case postgresqlDBConf en sockDir ''test'' of
        Inl err \<Rightarrow>
          fail_with (abort en ''Failed to create pgx pool config'' c StderrPipe StdoutPipe err w10)
      | Inr testConf \<Rightarrow>
     (case pgxpool_NewWithConfig en testConf w10 of
        (Some err, w11) \<Rightarrow>
          fail_with (abort en ''Failed to connect to test DB'' c StderrPipe StdoutPipe err w11)
      | (None, w11) \<Rightarrow>
          (Ret (Inr \<lparr>dir = dir', cmd = c, Pool = testConf,
                     Host = sockDir, User = ''test'', Name = ''test'',
                     stderr = Some StderrPipe, stdout = Some StdoutPipe\<rparr>),
           w11))))))))))))))))))"

text \<open>
  \<^verbatim>\<open>Stop\<close>, lines 207 to 234: what runs between the registration of the deferred
  removal and the return.
\<close>

definition Stop_body :: "env \<Rightarrow> PG \<Rightarrow> world \<Rightarrow> error option outcome \<times> world" where
  "Stop_body en p w =
     (case Process_Signal en Interrupt w of
        (Panic s, w1) \<Rightarrow> (Panic s, w1)
      | (Ret (Some err), w1) \<Rightarrow> (Ret (Some err), w1)
      | (Ret None, w1) \<Rightarrow>
     (case cmd_Wait en w1 of
        (None, w2) \<Rightarrow>
          (let w5 = (case stderr p of None \<Rightarrow> w2 | Some s \<Rightarrow> stream_Close s w2);
               w6 = (case stdout p of None \<Rightarrow> w5 | Some s \<Rightarrow> stream_Close s w5)
           in (Ret None, w6))
      | (Some err, w2) \<Rightarrow>
     (case Process_Signal en Kill w2 of
        (Panic s, w3) \<Rightarrow> (Panic s, w3)
      | (Ret _, w3) \<Rightarrow>
          (let w4 = (case os_ReadDir en (Host p) w3 of
                       (Inl err, w3') \<Rightarrow> w3'
                     | (Inr files, w3') \<Rightarrow>
                         fold (\<lambda>file. os_Remove en (filepath_Join [Host p, fst file])) files w3');
               w5 = (case stderr p of None \<Rightarrow> w4 | Some s \<Rightarrow> stream_Close s w4);
               w6 = (case stdout p of None \<Rightarrow> w5 | Some s \<Rightarrow> stream_Close s w5)
           in (Ret None, w6)))))"

text \<open>
  \<^verbatim>\<open>Stop\<close>: the nil check, \<^verbatim>\<open>p.Pool.Close()\<close>, then the body with the deferred
  \<^verbatim>\<open>os.RemoveAll(p.dir)\<close> run after it on every way out, a panic included.
\<close>

definition Stop :: "env \<Rightarrow> PG option \<Rightarrow> world \<Rightarrow> error option outcome \<times> world" where
  "Stop en p' w =
     (case p' of
        None \<Rightarrow> (Ret None, w)
      | Some p \<Rightarrow>
          (let w0 = pool_Close (Pool p) w;
               (r, w7) = Stop_body en p w0
           in (r, os_RemoveAll en (dir p) w7)))"

subsection \<open>A concrete machine\<close>

text \<open>
  A machine on which everything works: \<^verbatim>\<open>initdb\<close> is on the search path, the
  temporary directory is \<^verbatim>\<open>/tmp/pgxtest1\<close>, the server accepts connections at the
  third attempt.
\<close>

definition env_ok :: env where
  "env_ok =
     \<lparr>look_path = (\<lambda>name. Inr (''/usr/bin/'' @ name)),
      stat = (\<lambda>p. StatNotExist),
      read_dir = (\<lambda>p. Inr []),
      environ = [''HOME=/root''],
      mkdir_temp = Inr ''/tmp/pgxtest1'',
      mkdir_all = (\<lambda>p. None),
      combined_output = (\<lambda>c. (''ok'', None)),
      stderr_pipe = None,
      stdout_pipe = None,
      cmd_start = None,
      parse_config = (\<lambda>url. None),
      new_pool = (\<lambda>url. None),
      acquire = (\<lambda>n. if n < 2 then Some ''connection refused'' else None),
      exec_sql = (\<lambda>sql. None),
      signal_err = (\<lambda>sig. None),
      wait_err = None,
      read_all = (\<lambda>s. case s of StderrPipe \<Rightarrow> ''LOG: shutting down'' | StdoutPipe \<Rightarrow> []),
      remove_ok = (\<lambda>p. True),
      remove_all_ok = (\<lambda>p. True)\<rparr>"

definition world0 :: world where
  "world0 = \<lparr>fs = [''/tmp''], proc = NotStarted, closed = [], n_acquire = 0, trace = []\<rparr>"

definition config0 :: Config where
  "config0 = \<lparr>BinDir = [], Dir = [], AdditionalArgs = []\<rparr>"

definition config_dir :: Config where
  "config_dir = \<lparr>BinDir = [], Dir = ''/srv/pgdata'', AdditionalArgs = [''-c'', ''wal_level=logical'']\<rparr>"

definition world_dir :: world where
  "world_dir =
     \<lparr>fs = [''/srv'', ''/srv/pgdata''], proc = NotStarted, closed = [], n_acquire = 0, trace = []\<rparr>"

text \<open>The same machine, but \<^verbatim>\<open>initdb\<close> exits with an error.\<close>

definition env_initdb_fails :: env where
  "env_initdb_fails =
     env_ok\<lparr>combined_output := (\<lambda>c. (''initdb: could not create directory'', Some ''exit status 1''))\<rparr>"

text \<open>The same machine, but the \<^verbatim>\<open>postgres\<close> binary cannot be executed.\<close>

definition env_spawn_fails :: env where
  "env_spawn_fails =
     env_ok\<lparr>cmd_start := Some ''fork/exec /usr/bin/postgres: no such file or directory''\<rparr>"

text \<open>The same machine, but the kernel refuses to deliver signals to the server.\<close>

definition env_signal_fails :: env where
  "env_signal_fails = env_ok\<lparr>signal_err := (\<lambda>sig. Some ''operation not permitted'')\<rparr>"

text \<open>The same machine, but the test database cannot be opened.\<close>

definition env_pool_fails :: env where
  "env_pool_fails =
     env_ok\<lparr>new_pool := (\<lambda>url. if url = ''postgres://test@localhost/test?host=/tmp/pgxtest1/sock''
                                then Some ''dial error'' else None)\<rparr>"

text \<open>
  The same machine with a server that rejects its arguments: it writes a message to
  stderr and exits, so no connection is ever accepted.
\<close>

definition config_bogus :: Config where
  "config_bogus = \<lparr>BinDir = [], Dir = [], AdditionalArgs = [''-c'', ''bogus=1'']\<rparr>"

definition env_server_dies :: env where
  "env_server_dies =
     env_ok\<lparr>acquire := (\<lambda>n. Some ''connection refused''),
            wait_err := Some ''exit status 1'',
            read_all := (\<lambda>s. case s of
                              StderrPipe \<Rightarrow> ''FATAL: unrecognized configuration parameter bogus''
                            | StdoutPipe \<Rightarrow> [])\<rparr>"

text \<open>The same machine, but the server never accepts a connection.\<close>

definition env_never_ready :: env where
  "env_never_ready = env_ok\<lparr>acquire := (\<lambda>n. Some ''connection refused'')\<rparr>"

text \<open>
  A machine with \<^verbatim>\<open>/opt/pg\<close> holding both \<^verbatim>\<open>initdb\<close> itself and a versioned
  install \<^verbatim>\<open>16/bin/initdb\<close>; the listing is in \<^verbatim>\<open>os.ReadDir\<close>'s order
  (by byte, \<^verbatim>\<open>1\<close> before \<^verbatim>\<open>i\<close>).
\<close>

definition env_nested :: env where
  "env_nested =
     env_ok\<lparr>stat := (\<lambda>p. if p = ''/opt/pg'' \<or> p = ''/opt/pg/16'' \<or> p = ''/opt/pg/16/bin'' then StatDir
                      else if p = ''/opt/pg/initdb'' \<or> p = ''/opt/pg/16/bin/initdb'' then StatFile
                      else StatNotExist),
            read_dir := (\<lambda>p. if p = ''/opt/pg'' then Inr [(''16'', True), (''initdb'', False)]
                          else if p = ''/opt/pg/16'' then Inr [(''bin'', True)]
                          else if p = ''/opt/pg/16/bin'' then Inr [(''initdb'', False)]
                          else Inl ''no such file or directory'')\<rparr>"

text \<open>
  A machine with \<^verbatim>\<open>/opt/pgsql\<close> holding, in \<^verbatim>\<open>os.ReadDir\<close>'s order, a file
  \<^verbatim>\<open>README\<close>, a directory \<^verbatim>\<open>doc\<close> without binaries, \<^verbatim>\<open>initdb\<close> itself and a
  versioned install \<^verbatim>\<open>v17/bin/initdb\<close>.
\<close>

definition env_mixed :: env where
  "env_mixed =
     env_ok\<lparr>stat := (\<lambda>p. if p = ''/opt/pgsql'' \<or> p = ''/opt/pgsql/doc'' \<or> p = ''/opt/pgsql/v17''
                            \<or> p = ''/opt/pgsql/v17/bin'' then StatDir
                      else if p = ''/opt/pgsql/README'' \<or> p = ''/opt/pgsql/initdb''
                            \<or> p = ''/opt/pgsql/v17/bin/initdb'' then StatFile
                      else StatNotExist),
            read_dir := (\<lambda>p. if p = ''/opt/pgsql''
                          then Inr [(''README'', False), (''doc'', True), (''initdb'', False),
                                    (''v17'', True)]
                          else if p = ''/opt/pgsql/doc'' then Inr []
                          else if p = ''/opt/pgsql/v17'' then Inr [(''bin'', True)]
                          else if p = ''/opt/pgsql/v17/bin'' then Inr [(''initdb'', False)]
                          else Inl ''no such file or directory'')\<rparr>"

text \<open>
  The handle a caller holds after \<^verbatim>\<open>Start\<close> (\<^verbatim>\<open>nil\<close> unless it succeeded), and
  two runs on that machine: \<^verbatim>\<open>Start\<close> with the empty configuration followed by
  \<^verbatim>\<open>Stop\<close>, and \<^verbatim>\<open>Start\<close> with a storage directory of the caller's.
\<close>

definition handle_of :: "(error + PG) outcome \<Rightarrow> PG option" where
  "handle_of r = (case r of Ret (Inr pg) \<Rightarrow> Some pg | Ret (Inl e) \<Rightarrow> None | Panic s \<Rightarrow> None)"

definition pg0 :: PG where
  "pg0 =
     \<lparr>dir = ''/tmp/pgxtest1'',
      cmd = prepareCommand env_ok ''/usr/bin/postgres''
              [''-D'', ''/tmp/pgxtest1/data'', ''-k'', ''/tmp/pgxtest1/sock'', ''-h'', [], ''-F''],
      Pool = ''postgres://test@localhost/test?host=/tmp/pgxtest1/sock'',
      Host = ''/tmp/pgxtest1/sock'', User = ''test'', Name = ''test'',
      stderr = Some StderrPipe, stdout = Some StdoutPipe\<rparr>"

definition pg_dir :: PG where
  "pg_dir =
     \<lparr>dir = ''/srv/pgdata'',
      cmd = prepareCommand env_ok ''/usr/bin/postgres''
              [''-D'', ''/srv/pgdata/data'', ''-k'', ''/srv/pgdata/sock'', ''-h'', [], ''-F'',
               ''-c'', ''wal_level=logical''],
      Pool = ''postgres://test@localhost/test?host=/srv/pgdata/sock'',
      Host = ''/srv/pgdata/sock'', User = ''test'', Name = ''test'',
      stderr = Some StderrPipe, stdout = Some StdoutPipe\<rparr>"

definition started :: "(error + PG) outcome \<times> world" where
  "started = Start config0 env_ok world0"

definition stopped_once :: "error option outcome \<times> world" where
  "stopped_once = Stop env_ok (handle_of (fst started)) (snd started)"

definition started_dir :: "(error + PG) outcome \<times> world" where
  "started_dir = Start config_dir env_ok world_dir"

subsection \<open>Vocabulary of the statements\<close>

text \<open>
  The calls of a readiness loop with \<open>k\<close> failed attempts, each followed by a sleep of
  10 ms, and one more attempt.
\<close>

definition attempts_trace :: "string \<Rightarrow> nat \<Rightarrow> event list" where
  "attempts_trace pool k =
     concat (replicate k [EvAcquire pool, EvSleep 10000000]) @ [EvAcquire pool]"

text \<open>
  An entry of a folder that ends the search of \<^verbatim>\<open>findBinPath\<close>: the file
  \<^verbatim>\<open>initdb\<close>, or a subdirectory with \<^verbatim>\<open>bin/initdb\<close> in it.
\<close>

definition entry_hit :: "env \<Rightarrow> string \<Rightarrow> string \<times> bool \<Rightarrow> bool" where
  "entry_hit en folder entry =
     (if snd entry
      then stat en (filepath_Join [filepath_Join [folder, fst entry, ''bin''], ''initdb''])
             \<in> {StatDir, StatFile}
      else fst entry = ''initdb'')"

definition entry_path :: "string \<Rightarrow> string \<times> bool \<Rightarrow> string" where
  "entry_path folder entry =
     (if snd entry then filepath_Join [folder, fst entry, ''bin''] else filepath_Join [folder])"

text \<open>
  The calls of \<^verbatim>\<open>abort\<close>, and the error it composes for a server that had been
  started: \<^verbatim>\<open>cmd.Wait\<close> has closed both pipes before they are read, so nothing
  follows \<^verbatim>\<open>OUT:\<close> and \<^verbatim>\<open>ERR:\<close>.
\<close>

definition abort_events :: "event list" where
  "abort_events =
     [EvSignal Interrupt, EvWait, EvReadAll StderrPipe, EvReadAll StdoutPipe,
      EvClose StderrPipe, EvClose StdoutPipe]"

definition abort_error :: "string \<Rightarrow> error \<Rightarrow> error" where
  "abort_error msg reason = msg @ '': '' @ reason @ nl @ ''OUT: '' @ nl @ ''ERR: ''"

text \<open>The base directory \<^verbatim>\<open>Start\<close> works in, once it has one.\<close>

definition base_dir :: "Config \<Rightarrow> env \<Rightarrow> string" where
  "base_dir config en =
     (if Dir config = [] then (case mkdir_temp en of Inr d \<Rightarrow> d | Inl e \<Rightarrow> []) else Dir config)"

definition server_args :: "Config \<Rightarrow> env \<Rightarrow> string list" where
  "server_args config en =
     [''-D'', filepath_Join [base_dir config en, ''data''],
      ''-k'', filepath_Join [base_dir config en, ''sock''],
      ''-h'', [], ''-F''] @ AdditionalArgs config"

text \<open>The URL \<^verbatim>\<open>postgresqlDBConf\<close> builds.\<close>

definition db_url :: "string \<Rightarrow> string \<Rightarrow> string" where
  "db_url sockDir dbName = ''postgres://test@localhost/'' @ dbName @ ''?host='' @ sockDir"

text \<open>
  Lines 144 to 191 of \<^verbatim>\<open>Start\<close> on their own, what follows a successful
  \<^verbatim>\<open>cmd.Start\<close>; \<open>Start\<close> above ends in exactly this (lemma \<open>Start_unfold\<close>).
\<close>

definition Start_connect ::
  "env \<Rightarrow> string \<Rightarrow> string \<Rightarrow> Cmd \<Rightarrow> world \<Rightarrow> (error + PG) outcome \<times> world" where
  "Start_connect en dir' sockDir c w7 =
     (case postgresqlDBConf en sockDir ''postgres'' of
        Inl err \<Rightarrow>
          fail_with (abort en ''Failed to create pgx pool config'' c StderrPipe StdoutPipe err w7)
      | Inr postgresConf \<Rightarrow>
     (case pgxpool_NewWithConfig en postgresConf w7 of
        (Some err, w8) \<Rightarrow>
          fail_with (abort en ''Failed to connect to postgres DB'' c StderrPipe StdoutPipe err w8)
      | (None, w8) \<Rightarrow>
     (case createTestDB en postgresConf w8 of
        (Some err, w9) \<Rightarrow>
          fail_with (abort en ''Failed to create test DB'' c StderrPipe StdoutPipe err w9)
      | (None, w9) \<Rightarrow>
     (let w10 = pool_Close postgresConf w9
      in
     (case postgresqlDBConf en sockDir ''test'' of
        Inl err \<Rightarrow>
          fail_with (abort en ''Failed to create pgx pool config'' c StderrPipe StdoutPipe err w10)
      | Inr testConf \<Rightarrow>
     (case pgxpool_NewWithConfig en testConf w10 of
        (Some err, w11) \<Rightarrow>
          fail_with (abort en ''Failed to connect to test DB'' c StderrPipe StdoutPipe err w11)
      | (None, w11) \<Rightarrow>
          (Ret (Inr \<lparr>dir = dir', cmd = c, Pool = testConf,
                     Host = sockDir, User = ''test'', Name = ''test'',
                     stderr = Some StderrPipe, stdout = Some StdoutPipe\<rparr>),
           w11)))))))"

text \<open>
  The places where \<^verbatim>\<open>Start\<close> can fail once the server runs, each with the message
  the source gives to \<^verbatim>\<open>abort\<close> and the error of the failed call; \<open>w7\<close> is the world
  right after \<^verbatim>\<open>cmd.Start\<close>.
\<close>

definition failure_site :: "env \<Rightarrow> string \<Rightarrow> world \<Rightarrow> string \<Rightarrow> error \<Rightarrow> bool" where
  "failure_site en sockDir w7 msg reason =
     ((msg = ''Failed to create pgx pool config''
         \<and> (parse_config en (db_url sockDir ''postgres'') = Some reason
              \<or> parse_config en (db_url sockDir ''test'') = Some reason))
      \<or> (msg = ''Failed to connect to postgres DB''
         \<and> new_pool en (db_url sockDir ''postgres'') = Some reason)
      \<or> (msg = ''Failed to create test DB''
         \<and> fst (createTestDB en (db_url sockDir ''postgres'')
                  (snd (pgxpool_NewWithConfig en (db_url sockDir ''postgres'') w7))) = Some reason)
      \<or> (msg = ''Failed to connect to test DB''
         \<and> new_pool en (db_url sockDir ''test'') = Some reason))"

text \<open>
  A step that leaves the server process alone, removes nothing from disk and starts
  no command.
\<close>

definition grows :: "world \<Rightarrow> world \<Rightarrow> bool" where
  "grows wa wb =
     (proc wb = proc wa \<and> set (fs wa) \<subseteq> set (fs wb)
      \<and> (\<forall>c. EvStart c \<in> set (trace wb) \<longrightarrow> EvStart c \<in> set (trace wa)))"

text \<open>The temporary directory, when \<^verbatim>\<open>Start\<close> has allocated one, is on disk.\<close>

definition tmp_kept :: "Config \<Rightarrow> env \<Rightarrow> world \<Rightarrow> bool" where
  "tmp_kept config en w =
     (\<forall>d b. Dir config = [] \<and> mkdir_temp en = Inr d
            \<and> findBinPath en (BinDir config) = Ret (Inr b) \<longrightarrow> d \<in> set (fs w))"

text \<open>Every command started since \<open>w\<close> carries the server's argument list.\<close>

definition starts_ok :: "Config \<Rightarrow> env \<Rightarrow> world \<Rightarrow> world \<Rightarrow> bool" where
  "starts_ok config en w w' =
     (\<forall>c. EvStart c \<in> set (trace w') \<longrightarrow>
          EvStart c \<in> set (trace w) \<or> tl (Args c) = server_args config en)"

text \<open>
  What \<^verbatim>\<open>return nil, abort(msg, ..., err)\<close> amounts to in a world \<open>w\<close> whose
  server is running: the composed error, and the world after the six calls.
\<close>

definition aborted :: "string \<Rightarrow> error \<Rightarrow> world \<Rightarrow> (error + PG) outcome \<times> world" where
  "aborted msg reason w =
     (Ret (Inl (abort_error msg reason)),
      w\<lparr>proc := Finished, closed := close_both (closed w), trace := trace w @ abort_events\<rparr>)"

text \<open>
  The world right after \<^verbatim>\<open>cmd.Start\<close>, when \<^verbatim>\<open>Start\<close> gets that far: the calls of
  lines 83 to 139 in their order, for the binary directory \<open>binPath\<close>.
\<close>

definition server_cmd :: "Config \<Rightarrow> env \<Rightarrow> string \<Rightarrow> Cmd" where
  "server_cmd config en binPath =
     prepareCommand en (filepath_Join [binPath, ''postgres'']) (server_args config en)"

definition spawned :: "Config \<Rightarrow> env \<Rightarrow> string \<Rightarrow> world \<Rightarrow> world" where
  "spawned config en binPath w =
     (let w1 = (if Dir config = [] then snd (os_MkdirTemp en w) else w);
          dataDir = filepath_Join [base_dir config en, ''data''];
          sockDir = filepath_Join [base_dir config en, ''sock''];
          w2 = snd (os_MkdirAll en dataDir w1);
          w3 = snd (os_MkdirAll en sockDir w2);
          init = prepareCommand en (filepath_Join [binPath, ''initdb''])
                   [''-D'', dataDir, ''--no-sync'', ''--username=test''];
          w4 = snd (cmd_CombinedOutput en init w3);
          w5 = snd (cmd_StderrPipe en w4);
          w6 = snd (cmd_StdoutPipe en w5)
      in snd (cmd_Start en (server_cmd config en binPath) w6))"

text \<open>Every call before \<^verbatim>\<open>cmd.Start\<close>, and \<^verbatim>\<open>cmd.Start\<close> itself, succeeds.\<close>

definition spawn_ok :: "Config \<Rightarrow> env \<Rightarrow> string \<Rightarrow> bool" where
  "spawn_ok config en binPath =
     (findBinPath en (BinDir config) = Ret (Inr binPath)
      \<and> (Dir config = [] \<longrightarrow> mkdir_temp en = Inr (base_dir config en))
      \<and> mkdir_all en (filepath_Join [base_dir config en, ''data'']) = None
      \<and> mkdir_all en (filepath_Join [base_dir config en, ''sock'']) = None
      \<and> snd (combined_output en
                (prepareCommand en (filepath_Join [binPath, ''initdb''])
                   [''-D'', filepath_Join [base_dir config en, ''data''],
                    ''--no-sync'', ''--username=test''])) = None
      \<and> stderr_pipe en = None \<and> stdout_pipe en = None \<and> cmd_start en = None)"

declare retry.simps [simp del]

section \<open>Auxiliary facts\<close>

subsection \<open>The readiness loop\<close>

lemma sint64: "sint (a::64 word) = (if uint a < 2 ^ 63 then uint a else uint a - 2 ^ 64)"
proof -
  have s: "sint a = (uint a + 2 ^ 63) mod 2 ^ 64 - 2 ^ 63"
    by (simp add: sint_uint signed_take_bit_eq_take_bit_shift take_bit_eq_mod)
  have b: "0 \<le> uint a" "uint a < 2 ^ 64"
    using uint_bounded [of a] by simp_all
  show ?thesis
  proof (cases "uint a < 2 ^ 63")
    case True
    then have "(uint a + 2 ^ 63) mod 2 ^ 64 = uint a + 2 ^ 63"
      using b by (intro mod_pos_pos_trivial) simp_all
    then show ?thesis using True s by simp
  next
    case False
    have "(uint a + 2 ^ 63) mod 2 ^ 64 = (uint a + 2 ^ 63 - 2 ^ 64) mod 2 ^ 64"
      by (metis minus_mod_self2)
    also have "\<dots> = uint a + 2 ^ 63 - 2 ^ 64"
      using b False by (intro mod_pos_pos_trivial) simp_all
    finally show ?thesis using False s by simp
  qed
qed

lemma sle0_iff: "(a::64 word) \<le>s 0 \<longleftrightarrow> a = 0 \<or> 2 ^ 63 \<le> uint a"
  using uint_bounded [of a]
  by (auto simp: word_sle_eq sint64 uint_0_iff split: if_splits)


lemma sle0_unat: "(a::64 word) \<le>s 0 \<longleftrightarrow> unat a = 0 \<or> 2 ^ 63 \<le> unat a"
proof -
  have "(2 ^ 63 \<le> uint a) = ((2::int) ^ 63 \<le> int (unat a))"
    by (simp only: uint_nat)
  also have "\<dots> = (int (2 ^ 63) \<le> int (unat a))"
    by (simp only: of_nat_power of_nat_numeral)
  also have "\<dots> = (2 ^ 63 \<le> unat a)"
    by (rule of_nat_le_iff)
  finally have "(2 ^ 63 \<le> uint a) = (2 ^ 63 \<le> unat a)" .
  then show ?thesis
    by (simp add: sle0_iff unat_eq_zero)
qed

lemma acq_snd:
  "snd (pool_Acquire en p w) = w\<lparr>n_acquire := Suc (n_acquire w), trace := trace w @ [EvAcquire p]\<rparr>"
  by (simp add: pool_Acquire_def emit_def)

lemma sleep_eq: "time_Sleep i w = w\<lparr>trace := trace w @ [EvSleep i]\<rparr>"
  by (simp add: time_Sleep_def emit_def)

lemma acq_eq:
  "pool_Acquire en p w =
     (acquire en (n_acquire w),
      w\<lparr>n_acquire := Suc (n_acquire w), trace := trace w @ [EvAcquire p]\<rparr>)"
  by (simp add: pool_Acquire_def emit_def)

lemma retry_fail_gen:
  "fn w = (Some err, w1) \<Longrightarrow>
   retry fn a i w =
     (if a - 1 \<le>s 0 then (Some err, w1) else retry fn (a - 1) i (time_Sleep i w1))"
  by (subst retry.simps) (simp add: Let_def)

lemma retry_ok_gen: "fn w = (None, w1) \<Longrightarrow> retry fn a i w = (None, w1)"
  by (subst retry.simps) simp

lemma retry_fail_step:
  assumes "acquire en (n_acquire w) = Some err"
  shows "retry (pool_Acquire en p) a i w =
           (if a - 1 \<le>s 0 then (Some err, snd (pool_Acquire en p w))
            else retry (pool_Acquire en p) (a - 1) i (time_Sleep i (snd (pool_Acquire en p w))))"
  by (rule retry_fail_gen) (simp add: acq_eq assms)

lemma retry_ok_step:
  assumes "acquire en (n_acquire w) = None"
  shows "retry (pool_Acquire en p) a i w = (None, snd (pool_Acquire en p w))"
  by (rule retry_ok_gen) (simp add: acq_eq assms)

lemma unat_pred: "unat (a::64 word) = Suc n \<Longrightarrow> unat (a - 1) = n"
  by (metis diff_Suc_1 nat.distinct(1) unat_eq_zero unat_minus_one)

lemma retry_all_fail:
  "unat a = Suc n \<Longrightarrow> Suc n < 2 ^ 63 \<Longrightarrow>
   (\<forall>j\<le>n. acquire en (n_acquire w + j) \<noteq> None) \<Longrightarrow>
   retry (pool_Acquire en p) a i w =
     (acquire en (n_acquire w + n),
      w\<lparr>n_acquire := n_acquire w + Suc n,
        trace := trace w @ concat (replicate n [EvAcquire p, EvSleep i]) @ [EvAcquire p]\<rparr>)"
proof (induction n arbitrary: a w)
  case 0
  from 0 obtain err where e: "acquire en (n_acquire w) = Some err" by auto
  have "unat (a - 1) = 0" using 0 unat_pred by blast
  then have "a - 1 \<le>s 0" by (simp add: sle0_unat)
  then show ?case
    using e by (simp add: retry_fail_step [OF e] acq_snd)
next
  case (Suc n)
  from Suc.prems obtain err where e: "acquire en (n_acquire w) = Some err" by force
  have u: "unat (a - 1) = Suc n" using Suc.prems unat_pred by blast
  then have ns: "\<not> a - 1 \<le>s 0" using Suc.prems by (simp add: sle0_unat)
  let ?w = "time_Sleep i (snd (pool_Acquire en p w))"
  have nw: "n_acquire ?w = Suc (n_acquire w)"
    by (simp add: acq_snd sleep_eq)
  have "\<forall>j\<le>n. acquire en (n_acquire ?w + j) \<noteq> None"
    using Suc.prems(3) nw by (metis Suc_le_mono add_Suc_shift)
  from Suc.IH [OF u _ this] Suc.prems(2)
  have "retry (pool_Acquire en p) (a - 1) i ?w =
     (acquire en (n_acquire ?w + n),
      ?w\<lparr>n_acquire := n_acquire ?w + Suc n,
        trace := trace ?w @ concat (replicate n [EvAcquire p, EvSleep i]) @ [EvAcquire p]\<rparr>)"
    by simp
  then show ?case
    using ns by (simp add: retry_fail_step [OF e] acq_snd sleep_eq)
qed

lemma retry_success:
  "unat a = Suc n \<Longrightarrow> Suc n < 2 ^ 63 \<Longrightarrow> k \<le> n \<Longrightarrow>
   acquire en (n_acquire w + k) = None \<Longrightarrow>
   (\<forall>j<k. acquire en (n_acquire w + j) \<noteq> None) \<Longrightarrow>
   retry (pool_Acquire en p) a i w =
     (None,
      w\<lparr>n_acquire := n_acquire w + Suc k,
        trace := trace w @ concat (replicate k [EvAcquire p, EvSleep i]) @ [EvAcquire p]\<rparr>)"
proof (induction k arbitrary: a w n)
  case 0
  then have e: "acquire en (n_acquire w) = None" by simp
  show ?case
    by (simp add: retry_ok_step [OF e] acq_snd)
next
  case (Suc k)
  from Suc.prems obtain err where e: "acquire en (n_acquire w) = Some err" by force
  from Suc.prems obtain m where m: "n = Suc m" by (cases n) auto
  have u: "unat (a - 1) = Suc m" using Suc.prems m unat_pred by blast
  then have ns: "\<not> a - 1 \<le>s 0" using Suc.prems m by (simp add: sle0_unat)
  let ?w = "time_Sleep i (snd (pool_Acquire en p w))"
  have nw: "n_acquire ?w = Suc (n_acquire w)"
    by (simp add: acq_snd sleep_eq)
  have a1: "acquire en (n_acquire ?w + k) = None"
    using Suc.prems(4) nw by simp
  have a2: "\<forall>j<k. acquire en (n_acquire ?w + j) \<noteq> None"
    using Suc.prems(5) nw by (metis Suc_less_eq add_Suc_shift)
  have "retry (pool_Acquire en p) (a - 1) i ?w =
     (None,
      ?w\<lparr>n_acquire := n_acquire ?w + Suc k,
        trace := trace ?w @ concat (replicate k [EvAcquire p, EvSleep i]) @ [EvAcquire p]\<rparr>)"
    using Suc.IH [OF u _ _ a1 a2] Suc.prems m by simp
  then show ?case
    using ns by (simp add: retry_fail_step [OF e] acq_snd sleep_eq)
qed

lemmas call_defs =
  emit_def os_MkdirTemp_def os_MkdirAll_def os_RemoveAll_def os_Remove_def os_ReadDir_def
  Process_Signal_def cmd_Wait_def cmd_Start_def cmd_StderrPipe_def cmd_StdoutPipe_def
  cmd_CombinedOutput_def pgxpool_NewWithConfig_def pool_Acquire_def conn_Exec_def
  conn_Release_def pool_Close_def io_ReadAll_def stream_Close_def time_Sleep_def

lemma retry_frame:
  "retry (pool_Acquire en p) a i w = (r, w') \<Longrightarrow>
     proc w' = proc w \<and> fs w' = fs w \<and>
     (\<exists>ts. trace w' = trace w @ ts \<and> set ts \<subseteq> {EvAcquire p, EvSleep i})"
proof (induction "pool_Acquire en p" a i w arbitrary: r w' rule: retry.induct)
  case (1 attempts interval w)
  show ?case
  proof (cases "acquire en (n_acquire w)")
    case None
    from "1.prems" show ?thesis
      by (auto simp: retry_ok_step [OF None] acq_snd)
  next
    case (Some err)
    show ?thesis
    proof (cases "attempts - 1 \<le>s 0")
      case True
      with "1.prems" show ?thesis
        by (auto simp: retry_fail_step [OF Some] acq_snd)
    next
      case False
      have step: "retry (pool_Acquire en p) (attempts - 1) interval
                    (time_Sleep interval (snd (pool_Acquire en p w))) = (r, w')"
        using "1.prems" False by (simp add: retry_fail_step [OF Some])
      have "pool_Acquire en p w = (Some err, snd (pool_Acquire en p w))"
        using Some by (simp add: acq_eq)
      from "1.hyps" [OF this [symmetric] refl refl False step]
      show ?thesis
        by (auto simp: acq_snd sleep_eq)
    qed
  qed
qed

lemma createTestDB_frame:
  "createTestDB en p w = (r, w') \<Longrightarrow>
     proc w' = proc w \<and> fs w' = fs w \<and>
     (\<exists>ts. trace w' = trace w @ ts \<and>
           set ts \<subseteq> {EvAcquire p, EvSleep (10 * 1000000), EvExec ''CREATE DATABASE test'', EvRelease})"
proof -
  assume a: "createTestDB en p w = (r, w')"
  obtain r1 w1 where r1: "retry (pool_Acquire en p) 1000 (10 * 1000000) w = (r1, w1)"
    by (cases "retry (pool_Acquire en p) 1000 (10 * 1000000) w") auto
  from retry_frame [OF r1] obtain ts where
    f: "proc w1 = proc w" "fs w1 = fs w" "trace w1 = trace w @ ts"
       "set ts \<subseteq> {EvAcquire p, EvSleep (10 * 1000000)}"
    by blast
  show ?thesis
  proof (cases r1)
    case (Some err)
    with a r1 have "w' = w1" by (simp add: createTestDB_def)
    with f show ?thesis by auto
  next
    case None
    with a r1 have "w' = conn_Release (snd (conn_Exec en ''CREATE DATABASE test'' w1))"
      by (auto simp: createTestDB_def split: option.splits prod.splits)
    then have "proc w' = proc w1 \<and> fs w' = fs w1 \<and>
               trace w' = trace w1 @ [EvExec ''CREATE DATABASE test'', EvRelease]"
      by (simp add: conn_Release_def conn_Exec_def emit_def)
    with f show ?thesis by auto
  qed
qed

lemma unat_1000: "unat (1000 :: 64 word) = Suc 999"
  by simp

lemma createTestDB_ready:
  assumes k: "k < 1000"
    and ok: "acquire en (n_acquire w + k) = None"
    and bad: "\<forall>j<k. acquire en (n_acquire w + j) \<noteq> None"
  shows "createTestDB en pool w =
           (exec_sql en ''CREATE DATABASE test'',
            w\<lparr>n_acquire := n_acquire w + Suc k,
              trace := trace w @ attempts_trace pool k @ [EvExec ''CREATE DATABASE test'', EvRelease]\<rparr>)"
proof -
  have "k \<le> 999" using k by simp
  from retry_success [OF unat_1000 _ this ok bad, of pool "10 * 1000000"]
  have "retry (pool_Acquire en pool) 1000 (10 * 1000000) w =
     (None, w\<lparr>n_acquire := n_acquire w + Suc k,
        trace := trace w @ concat (replicate k [EvAcquire pool, EvSleep (10 * 1000000)]) @ [EvAcquire pool]\<rparr>)"
    by simp
  then show ?thesis
    by (cases "exec_sql en ''CREATE DATABASE test''")
       (simp_all add: createTestDB_def conn_Exec_def conn_Release_def emit_def attempts_trace_def)
qed

lemma createTestDB_never_ready:
  assumes bad: "\<forall>j<1000. acquire en (n_acquire w + j) \<noteq> None"
  shows "createTestDB en pool w =
           (acquire en (n_acquire w + 999),
            w\<lparr>n_acquire := n_acquire w + 1000, trace := trace w @ attempts_trace pool 999\<rparr>)"
proof -
  have b: "\<forall>j\<le>999. acquire en (n_acquire w + j) \<noteq> None"
    using bad by simp
  from retry_all_fail [OF unat_1000 _ b, of pool "10 * 1000000"]
  have r: "retry (pool_Acquire en pool) 1000 (10 * 1000000) w =
     (acquire en (n_acquire w + 999), w\<lparr>n_acquire := n_acquire w + 1000,
        trace := trace w @ concat (replicate 999 [EvAcquire pool, EvSleep (10 * 1000000)]) @ [EvAcquire pool]\<rparr>)"
    by simp
  from bad obtain err where "acquire en (n_acquire w + 999) = Some err"
    by force
  with r show ?thesis
    by (simp add: createTestDB_def attempts_trace_def)
qed

text \<open>
  Claim C6. The readiness loop of \<^verbatim>\<open>createTestDB\<close> calls \<^verbatim>\<open>pool.Acquire\<close> at most
  1000 times. When attempt number \<open>k\<close> (counted from 0, \<open>k < 1000\<close>) is the first to
  succeed, the loop has made exactly the \<open>k\<close> failed attempts, each followed by one
  sleep of 10 ms, then the successful one, and goes on to the \<^verbatim>\<open>CREATE DATABASE\<close>
  statement. When all 1000 attempts fail, 999 sleeps of 10 ms lie between them and
  the error returned is the one of the last attempt.
\<close>

theorem createTestDB_retry_budget:
  "(\<forall>k. k < 1000 \<and> acquire en (n_acquire w + k) = None \<and>
        (\<forall>j<k. acquire en (n_acquire w + j) \<noteq> None) \<longrightarrow>
      createTestDB en pool w =
        (exec_sql en ''CREATE DATABASE test'',
         w\<lparr>n_acquire := n_acquire w + Suc k,
           trace := trace w @ attempts_trace pool k @ [EvExec ''CREATE DATABASE test'', EvRelease]\<rparr>))
   \<and> ((\<forall>j<1000. acquire en (n_acquire w + j) \<noteq> None) \<longrightarrow>
      createTestDB en pool w =
        (acquire en (n_acquire w + 999),
         w\<lparr>n_acquire := n_acquire w + 1000, trace := trace w @ attempts_trace pool 999\<rparr>))
   \<and> n_acquire (snd (createTestDB en pool w)) \<le> n_acquire w + 1000"
proof (intro conjI allI impI)
  fix k
  assume "k < 1000 \<and> acquire en (n_acquire w + k) = None \<and>
          (\<forall>j<k. acquire en (n_acquire w + j) \<noteq> None)"
  then show "createTestDB en pool w =
        (exec_sql en ''CREATE DATABASE test'',
         w\<lparr>n_acquire := n_acquire w + Suc k,
           trace := trace w @ attempts_trace pool k @ [EvExec ''CREATE DATABASE test'', EvRelease]\<rparr>)"
    using createTestDB_ready by blast
next
  assume "\<forall>j<1000. acquire en (n_acquire w + j) \<noteq> None"
  then show "createTestDB en pool w =
        (acquire en (n_acquire w + 999),
         w\<lparr>n_acquire := n_acquire w + 1000, trace := trace w @ attempts_trace pool 999\<rparr>)"
    by (rule createTestDB_never_ready)
next
  show "n_acquire (snd (createTestDB en pool w)) \<le> n_acquire w + 1000"
  proof (cases "\<forall>j<1000. acquire en (n_acquire w + j) \<noteq> None")
    case True
    then show ?thesis by (simp add: createTestDB_never_ready)
  next
    case False
    define P where "P = (\<lambda>j. j < 1000 \<and> acquire en (n_acquire w + j) = None)"
    from False have ex: "\<exists>j. P j" by (auto simp: P_def)
    define k where "k = (LEAST j. P j)"
    have Pk: "P k" unfolding k_def using ex by (metis LeastI)
    have least: "\<forall>j<k. \<not> P j" unfolding k_def using not_less_Least by blast
    have bad: "\<forall>j<k. acquire en (n_acquire w + j) \<noteq> None"
      using least Pk by (auto simp: P_def)
    have k: "k < 1000" and ok: "acquire en (n_acquire w + k) = None"
      using Pk by (simp_all add: P_def)
    show ?thesis
      using k by (simp add: createTestDB_ready [OF k ok bad])
  qed
qed

theorem createTestDB_retry_budget_witness:
  "createTestDB env_ok ''pool'' world0 =
     (None,
      world0\<lparr>n_acquire := 3,
             trace := [EvAcquire ''pool'', EvSleep 10000000, EvAcquire ''pool'', EvSleep 10000000,
                       EvAcquire ''pool'', EvExec ''CREATE DATABASE test'', EvRelease]\<rparr>)
   \<and> createTestDB env_never_ready ''pool'' world0 =
     (Some ''connection refused'',
      world0\<lparr>n_acquire := 1000, trace := attempts_trace ''pool'' 999\<rparr>)
   \<and> n_acquire (snd (createTestDB env_never_ready ''pool'' world0)) \<le> 1000"
proof -
  have a: "createTestDB env_ok ''pool'' world0 =
     (None,
      world0\<lparr>n_acquire := 3,
             trace := [EvAcquire ''pool'', EvSleep 10000000, EvAcquire ''pool'', EvSleep 10000000,
                       EvAcquire ''pool'', EvExec ''CREATE DATABASE test'', EvRelease]\<rparr>)"
    using createTestDB_retry_budget [of env_ok world0 "''pool''", THEN conjunct1, rule_format, of 2]
    by (simp add: env_ok_def world0_def attempts_trace_def less_Suc_eq numeral_2_eq_2)
  have b: "createTestDB env_never_ready ''pool'' world0 =
     (Some ''connection refused'',
      world0\<lparr>n_acquire := 1000, trace := attempts_trace ''pool'' 999\<rparr>)"
    using createTestDB_retry_budget [of env_never_ready world0 "''pool''", THEN conjunct2, THEN conjunct1]
    by (simp add: env_never_ready_def env_ok_def world0_def)
  have c: "n_acquire (snd (createTestDB env_never_ready ''pool'' world0)) \<le> 1000"
    using createTestDB_retry_budget [of env_never_ready world0 "''pool''", THEN conjunct2, THEN conjunct2]
    by (simp add: world0_def)
  from a b c show ?thesis by blast
qed

subsection \<open>The binary locator\<close>

lemma scan_files_first_hit:
  "\<forall>x\<in>set pre. \<not> entry_hit en folder x \<Longrightarrow> entry_hit en folder e \<Longrightarrow>
   scan_files en folder (pre @ e # post) = Some (entry_path folder e)"
proof (induction pre)
  case Nil
  then show ?case
    by (cases e) (auto simp: entry_hit_def entry_path_def Let_def split: stat_res.splits)
next
  case (Cons x pre)
  then show ?case
    by (cases x) (auto simp: entry_hit_def Let_def split: stat_res.splits)
qed

text \<open>
  Claim C8, as amended. In every candidate directory that is scanned, the entries are
  examined in the order of the directory listing, and the first entry that is either
  the file \<^verbatim>\<open>initdb\<close> or a subdirectory holding \<^verbatim>\<open>bin/initdb\<close> ends the search:
  the directory itself is returned when that entry is \<^verbatim>\<open>initdb\<close>, the
  subdirectory's \<^verbatim>\<open>bin\<close> when it is a subdirectory. A directly present
  \<^verbatim>\<open>initdb\<close> is therefore preferred only to the versioned installs listed after it.
\<close>

theorem findBinPath_first_hit:
  assumes "stat en folder = StatDir"
    and "read_dir en folder = Inr (pre @ e # post)"
    and "\<forall>x\<in>set pre. \<not> entry_hit en folder x"
    and "entry_hit en folder e"
  shows "scan_folders en (folder # folders) = Ret (Inr (entry_path folder e))
         \<and> (folder \<noteq> [] \<longrightarrow> findBinPath en folder = Ret (Inr (entry_path folder e)))"
  using assms by (simp add: findBinPath_def scan_files_first_hit)

theorem findBinPath_first_hit_witness:
  "findBinPath env_nested ''/opt/pg'' = Ret (Inr ''/opt/pg/16/bin'')
   \<and> scan_folders env_nested [''/opt/pg'', ''/usr/lib/postgresql/''] = Ret (Inr ''/opt/pg/16/bin'')
   \<and> findBinPath env_mixed ''/opt/pgsql'' = Ret (Inr ''/opt/pgsql'')
   \<and> scan_folders env_mixed [''/opt/pgsql'', ''/usr/lib/postgresql/''] = Ret (Inr ''/opt/pgsql'')"
proof -
  have a: "stat env_nested ''/opt/pg'' = StatDir"
          "read_dir env_nested ''/opt/pg'' = Inr ([] @ (''16'', True) # [(''initdb'', False)])"
          "\<forall>x\<in>set []. \<not> entry_hit env_nested ''/opt/pg'' x"
          "entry_hit env_nested ''/opt/pg'' (''16'', True)"
          "entry_path ''/opt/pg'' (''16'', True) = ''/opt/pg/16/bin''"
    by (simp_all add: env_nested_def env_ok_def entry_hit_def entry_path_def
                      filepath_Join_def path_Clean_def)
  have b: "stat env_mixed ''/opt/pgsql'' = StatDir"
          "read_dir env_mixed ''/opt/pgsql''
             = Inr ([(''README'', False), (''doc'', True)] @ (''initdb'', False) # [(''v17'', True)])"
          "\<forall>x\<in>set [(''README'', False), (''doc'', True)]. \<not> entry_hit env_mixed ''/opt/pgsql'' x"
          "entry_hit env_mixed ''/opt/pgsql'' (''initdb'', False)"
          "entry_path ''/opt/pgsql'' (''initdb'', False) = ''/opt/pgsql''"
    by (simp_all add: env_mixed_def env_ok_def entry_hit_def entry_path_def
                      filepath_Join_def path_Clean_def)
  from findBinPath_first_hit [OF a(1-4), of "[''/usr/lib/postgresql/'']"]
       findBinPath_first_hit [OF b(1-4), of "[''/usr/lib/postgresql/'']"] a(5) b(5)
  show ?thesis by simp
qed

text \<open>
  Claim C8 as stated fails: \<^verbatim>\<open>/opt/pg\<close> holds \<^verbatim>\<open>initdb\<close> directly, but the
  subdirectory \<^verbatim>\<open>16\<close> is listed first and \<^verbatim>\<open>/opt/pg/16/bin\<close> is returned.
\<close>

theorem findBinPath_nested_counterexample:
  "stat env_nested ''/opt/pg'' = StatDir
   \<and> read_dir env_nested ''/opt/pg'' = Inr [(''16'', True), (''initdb'', False)]
   \<and> findBinPath env_nested ''/opt/pg'' = Ret (Inr ''/opt/pg/16/bin'')
   \<and> filepath_Join [''/opt/pg''] = ''/opt/pg''"
  by (simp add: env_nested_def env_ok_def findBinPath_def filepath_Join_def path_Clean_def)

text \<open>
  Claim C5 on the code: when \<^verbatim>\<open>cmd.Start\<close> fails, \<^verbatim>\<open>Start\<close> calls \<^verbatim>\<open>abort\<close>,
  which signals \<^verbatim>\<open>cmd.Process\<close>; that field is still nil, and the call panics
  instead of returning the error.
\<close>

theorem Start_spawn_failure_panics:
  "cmd_start env_spawn_fails = Some ''fork/exec /usr/bin/postgres: no such file or directory''
   \<and> fst (Start config0 env_spawn_fails world0)
       = Panic ''invalid memory address or nil pointer dereference''
   \<and> proc (snd (Start config0 env_spawn_fails world0)) = NotStarted"
  by code_simp

subsection \<open>The stages of \<^verbatim>\<open>Start\<close>\<close>

lemma Start_unfold:
  "Start config en w =
     (case findBinPath en (BinDir config) of
        Panic s \<Rightarrow> (Panic s, w)
      | Ret (Inl err) \<Rightarrow> (Ret (Inl err), w)
      | Ret (Inr binPath) \<Rightarrow>
     (case (if Dir config = [] then os_MkdirTemp en w else (Inr (Dir config), w)) of
        (Inl err, w1) \<Rightarrow> (Ret (Inl err), w1)
      | (Inr dir', w1) \<Rightarrow>
     (let dataDir = filepath_Join [dir', ''data''];
          sockDir = filepath_Join [dir', ''sock'']
      in
     (case os_MkdirAll en dataDir w1 of
        (Some err, w2) \<Rightarrow> (Ret (Inl err), w2)
      | (None, w2) \<Rightarrow>
     (case os_MkdirAll en sockDir w2 of
        (Some err, w3) \<Rightarrow> (Ret (Inl err), w3)
      | (None, w3) \<Rightarrow>
     (let init = prepareCommand en (filepath_Join [binPath, ''initdb''])
                   [''-D'', dataDir, ''--no-sync'', ''--username=test'']
      in
     (case cmd_CombinedOutput en init w3 of
        ((out, Some err), w4) \<Rightarrow>
          (Ret (Inl (''Failed to initialize DB: '' @ err @ '' -> '' @ out)), w4)
      | ((out, None), w4) \<Rightarrow>
     (let c = prepareCommand en (filepath_Join [binPath, ''postgres''])
                ([''-D'', dataDir, ''-k'', sockDir, ''-h'', [], ''-F''] @ AdditionalArgs config)
      in
     (case cmd_StderrPipe en w4 of
        (Some err, w5) \<Rightarrow> (Ret (Inl err), w5)
      | (None, w5) \<Rightarrow>
     (case cmd_StdoutPipe en w5 of
        (Some err, w6) \<Rightarrow> (Ret (Inl err), stream_Close StderrPipe w6)
      | (None, w6) \<Rightarrow>
     (case cmd_Start en c w6 of
        (Some err, w7) \<Rightarrow>
          fail_with (abort en ''Failed to start PostgreSQL'' c StderrPipe StdoutPipe err w7)
      | (None, w7) \<Rightarrow> Start_connect en dir' sockDir c w7)))))))))))"
  unfolding Start_def Start_connect_def Let_def
  by (simp cong: outcome.case_cong sum.case_cong prod.case_cong option.case_cong if_cong)


lemma abort_running:
  "proc w = Running \<Longrightarrow>
   abort en msg c StderrPipe StdoutPipe err w =
     (Ret (abort_error msg err), w\<lparr>proc := Finished, closed := close_both (closed w), trace := trace w @ abort_events\<rparr>)"
  by (simp add: abort_def abort_error_def abort_events_def call_defs close_both_def)

lemma abort_not_started:
  "proc w = NotStarted \<Longrightarrow>
   abort en msg c se so err w = (Panic ''invalid memory address or nil pointer dereference'', w)"
  by (simp add: abort_def Process_Signal_def)

lemma fail_with_Ret: "fail_with (Ret e, w) = (Ret (Inl e), w)"
  by (simp add: fail_with_def)

lemma fail_with_Panic: "fail_with (Panic s, w) = (Panic s, w)"
  by (simp add: fail_with_def)

lemma NewWithConfig_eq:
  "pgxpool_NewWithConfig en url w = (new_pool en url, w\<lparr>trace := trace w @ [EvNewPool url]\<rparr>)"
  by (simp add: pgxpool_NewWithConfig_def emit_def)

lemma pool_Close_eq: "pool_Close p w = w\<lparr>trace := trace w @ [EvPoolClose p]\<rparr>"
  by (simp add: pool_Close_def emit_def)

lemma postgresqlDBConf_eq:
  "postgresqlDBConf en sockDir dbName =
     (case parse_config en (db_url sockDir dbName) of
        Some e \<Rightarrow> Inl e
      | None \<Rightarrow> Inr (db_url sockDir dbName))"
  by (simp add: postgresqlDBConf_def db_url_def Let_def split: option.splits)

lemma createTestDB_keeps:
  "createTestDB en p w = (r, w') \<Longrightarrow>
     proc w' = proc w \<and> fs w' = fs w \<and>
     (\<exists>ts. trace w' = trace w @ ts \<and> (\<forall>c. EvStart c \<notin> set ts))"
  by (drule createTestDB_frame) auto

lemma connect_abort_case:
  assumes r: "r = Ret (Inl (abort_error msg reason))"
    and w': "w' = wk\<lparr>proc := Finished, closed := close_both (closed wk), trace := trace wk @ abort_events\<rparr>"
    and fs: "fs wk = fs w7"
    and tr: "trace wk = trace w7 @ ts"
    and ns: "\<forall>c. EvStart c \<notin> set ts"
    and site: "failure_site en sd w7 msg reason"
  shows "fs w' = fs w7 \<and> (\<exists>ts. trace w' = trace w7 @ ts \<and> (\<forall>c. EvStart c \<notin> set ts)) \<and>
    ((r = Ret (Inr pg) \<and> proc w' = Running)
     \<or> (\<exists>msg reason. r = Ret (Inl (abort_error msg reason)) \<and> proc w' = Finished
           \<and> suffix abort_events (trace w') \<and> failure_site en sd w7 msg reason))"
proof -
  have a: "fs w' = fs w7"
    using w' fs by simp
  have "trace w' = trace w7 @ (ts @ abort_events)" "\<forall>c. EvStart c \<notin> set (ts @ abort_events)"
    using w' tr ns by (simp_all add: abort_events_def)
  then have b: "\<exists>ts. trace w' = trace w7 @ ts \<and> (\<forall>c. EvStart c \<notin> set ts)"
    by blast
  have "proc w' = Finished" "suffix abort_events (trace w')"
    using w' by (simp_all add: suffix_def)
  with r site have c: "\<exists>msg reason. r = Ret (Inl (abort_error msg reason)) \<and> proc w' = Finished
           \<and> suffix abort_events (trace w') \<and> failure_site en sd w7 msg reason"
    by blast
  from a b c show ?thesis by blast
qed

lemma Start_connect_cases:
  assumes run: "proc w7 = Running"
    and res: "Start_connect en d sd c w7 = (r, w')"
  shows "fs w' = fs w7 \<and> (\<exists>ts. trace w' = trace w7 @ ts \<and> (\<forall>c. EvStart c \<notin> set ts)) \<and>
    ((r = Ret (Inr \<lparr>dir = d, cmd = c, Pool = db_url sd ''test'', Host = sd, User = ''test'',
                    Name = ''test'', stderr = Some StderrPipe, stdout = Some StdoutPipe\<rparr>)
       \<and> proc w' = Running)
     \<or> (\<exists>msg reason. r = Ret (Inl (abort_error msg reason)) \<and> proc w' = Finished
           \<and> suffix abort_events (trace w') \<and> failure_site en sd w7 msg reason))"
proof (cases "parse_config en (db_url sd ''postgres'')")
  case (Some e1)
  have "r = Ret (Inl (abort_error ''Failed to create pgx pool config'' e1))"
       "w' = w7\<lparr>proc := Finished, closed := close_both (closed w7), trace := trace w7 @ abort_events\<rparr>"
    using res run Some
    by (simp_all add: Start_connect_def postgresqlDBConf_eq abort_running fail_with_Ret)
  then show ?thesis
    by (rule connect_abort_case [where ts = "[]"]) (simp_all add: failure_site_def Some)
next
  case p1: None
  let ?u = "db_url sd ''postgres''"
  let ?w8 = "w7\<lparr>trace := trace w7 @ [EvNewPool ?u]\<rparr>"
  show ?thesis
  proof (cases "new_pool en ?u")
    case (Some e2)
    have "r = Ret (Inl (abort_error ''Failed to connect to postgres DB'' e2))"
         "w' = ?w8\<lparr>proc := Finished, closed := close_both (closed ?w8), trace := trace ?w8 @ abort_events\<rparr>"
      using res run p1 Some
      by (simp_all add: Start_connect_def postgresqlDBConf_eq NewWithConfig_eq abort_running
                        fail_with_Ret)
    then show ?thesis
      by (rule connect_abort_case [where ts = "[EvNewPool ?u]"])
         (simp_all add: failure_site_def Some)
  next
    case n1: None
    obtain r9 w9 where c9: "createTestDB en ?u ?w8 = (r9, w9)"
      by (cases "createTestDB en ?u ?w8") auto
    from createTestDB_keeps [OF c9] obtain ts where
      k9: "proc w9 = Running" "fs w9 = fs w7" "trace w9 = trace w7 @ ([EvNewPool ?u] @ ts)"
          "\<forall>c. EvStart c \<notin> set ts"
      using run by auto
    show ?thesis
    proof (cases r9)
      case (Some e3)
      have "r = Ret (Inl (abort_error ''Failed to create test DB'' e3))"
           "w' = w9\<lparr>proc := Finished, closed := close_both (closed w9), trace := trace w9 @ abort_events\<rparr>"
        using res p1 n1 c9 Some k9(1)
        by (simp_all add: Start_connect_def postgresqlDBConf_eq NewWithConfig_eq abort_running
                          fail_with_Ret)
      moreover have "fst (createTestDB en ?u (snd (pgxpool_NewWithConfig en ?u w7))) = Some e3"
        using c9 Some by (simp add: NewWithConfig_eq)
      then have "failure_site en sd w7 ''Failed to create test DB'' e3"
        unfolding failure_site_def by blast
      ultimately show ?thesis
        using k9
        by (intro connect_abort_case [where ts = "[EvNewPool ?u] @ ts" and wk = w9]) simp_all
    next
      case c1: None
      let ?w10 = "w9\<lparr>trace := trace w9 @ [EvPoolClose ?u]\<rparr>"
      show ?thesis
      proof (cases "parse_config en (db_url sd ''test'')")
        case (Some e4)
        have "r = Ret (Inl (abort_error ''Failed to create pgx pool config'' e4))"
             "w' = ?w10\<lparr>proc := Finished, closed := close_both (closed ?w10), trace := trace ?w10 @ abort_events\<rparr>"
          using res p1 n1 c9 c1 Some k9(1)
          by (simp_all add: Start_connect_def postgresqlDBConf_eq NewWithConfig_eq pool_Close_eq
                            abort_running fail_with_Ret)
        moreover have "failure_site en sd w7 ''Failed to create pgx pool config'' e4"
          unfolding failure_site_def using Some by blast
        ultimately show ?thesis
          using k9
          by (intro connect_abort_case [where ts = "[EvNewPool ?u] @ ts @ [EvPoolClose ?u]"
                                         and wk = ?w10]) simp_all
      next
        case p2: None
        let ?t = "db_url sd ''test''"
        let ?w11 = "?w10\<lparr>trace := trace ?w10 @ [EvNewPool ?t]\<rparr>"
        show ?thesis
        proof (cases "new_pool en ?t")
          case (Some e5)
          have "r = Ret (Inl (abort_error ''Failed to connect to test DB'' e5))"
               "w' = ?w11\<lparr>proc := Finished, closed := close_both (closed ?w11), trace := trace ?w11 @ abort_events\<rparr>"
            using res p1 n1 c9 c1 p2 Some k9(1)
            by (simp_all add: Start_connect_def postgresqlDBConf_eq NewWithConfig_eq pool_Close_eq
                              abort_running fail_with_Ret)
          moreover have "failure_site en sd w7 ''Failed to connect to test DB'' e5"
            unfolding failure_site_def using Some by blast
          ultimately show ?thesis
            using k9
            by (intro connect_abort_case
                        [where ts = "[EvNewPool ?u] @ ts @ [EvPoolClose ?u, EvNewPool ?t]"
                           and wk = ?w11]) simp_all
        next
          case n2: None
          have "r = Ret (Inr \<lparr>dir = d, cmd = c, Pool = ?t, Host = sd, User = ''test'',
                    Name = ''test'', stderr = Some StderrPipe, stdout = Some StdoutPipe\<rparr>)"
               "w' = ?w11"
            using res p1 n1 c9 c1 p2 n2
            by (simp_all add: Start_connect_def postgresqlDBConf_eq NewWithConfig_eq pool_Close_eq)
          then show ?thesis
            using k9 by auto
        qed
      qed
    qed
  qed
qed

lemma grows_refl: "grows w w"
  by (simp add: grows_def)

lemma grows_trans: "grows a b \<Longrightarrow> grows b c \<Longrightarrow> grows a c"
  by (auto simp: grows_def)

lemma MkdirTemp_grows: "os_MkdirTemp en w = (r, w') \<Longrightarrow> grows w w'"
  by (auto simp: os_MkdirTemp_def emit_def grows_def split: sum.splits)

lemma MkdirTemp_there: "os_MkdirTemp en w = (Inr d, w') \<Longrightarrow> mkdir_temp en = Inr d \<and> d \<in> set (fs w')"
  by (auto simp: os_MkdirTemp_def emit_def split: sum.splits)

lemma MkdirTemp_fail: "os_MkdirTemp en w = (Inl e, w') \<Longrightarrow> mkdir_temp en = Inl e"
  by (auto simp: os_MkdirTemp_def emit_def split: sum.splits)

lemma MkdirAll_grows: "os_MkdirAll en p w = (r, w') \<Longrightarrow> grows w w'"
  by (auto simp: os_MkdirAll_def emit_def grows_def split: option.splits)

lemma CombinedOutput_grows: "cmd_CombinedOutput en c w = (r, w') \<Longrightarrow> grows w w'"
  by (auto simp: cmd_CombinedOutput_def emit_def grows_def)

lemma StderrPipe_grows: "cmd_StderrPipe en w = (r, w') \<Longrightarrow> grows w w'"
  by (auto simp: cmd_StderrPipe_def emit_def grows_def split: option.splits)

lemma StdoutPipe_grows: "cmd_StdoutPipe en w = (r, w') \<Longrightarrow> grows w w'"
  by (auto simp: cmd_StdoutPipe_def emit_def grows_def split: option.splits)

lemma stream_Close_grows: "grows w (stream_Close s w)"
  by (auto simp: stream_Close_def emit_def grows_def)

lemma cmd_Start_fresh:
  "proc w = NotStarted \<Longrightarrow> cmd_Start en c w = (r, w') \<Longrightarrow>
     fs w' = fs w \<and> trace w' = trace w @ [EvStart c]
     \<and> (case r of None \<Rightarrow> proc w' = Running | Some e \<Rightarrow> proc w' = NotStarted)"
  by (auto simp: cmd_Start_def emit_def split: option.splits)


lemma Start_reaches:
  assumes ns: "proc w = NotStarted"
    and res: "Start config en w = (r, w')"
  shows "(proc w' = NotStarted \<and> (\<forall>pg. r \<noteq> Ret (Inr pg)) \<and> set (fs w) \<subseteq> set (fs w')
            \<and> tmp_kept config en w' \<and> starts_ok config en w w')
       \<or> (\<exists>w7 c. proc w7 = Running \<and> set (fs w) \<subseteq> set (fs w7)
            \<and> tmp_kept config en w7 \<and> starts_ok config en w w7
            \<and> tl (Args c) = server_args config en \<and> EvStart c \<in> set (trace w7)
            \<and> Start_connect en (base_dir config en)
                 (filepath_Join [base_dir config en, ''sock'']) c w7 = (r, w'))"
    (is "?A \<or> ?B")
proof -
  have early: "proc wk = NotStarted \<and> set (fs w) \<subseteq> set (fs wk)
                 \<and> tmp_kept config en wk \<and> starts_ok config en w wk"
    if "grows w wk" "tmp_kept config en wk" for wk
    using that ns by (auto simp: grows_def starts_ok_def)
  note U = res [unfolded Start_unfold Let_def]
  show ?thesis
  proof (cases "findBinPath en (BinDir config)")
    case (Panic s)
    with U have "r = Panic s" "w' = w" by simp_all
    moreover have "tmp_kept config en w" using Panic by (simp add: tmp_kept_def)
    ultimately show ?thesis using early [OF grows_refl] by auto
  next
    case (Ret x)
    show ?thesis
    proof (cases x)
      case (Inl e)
      with U Ret have "r = Ret (Inl e)" "w' = w" by simp_all
      moreover have "tmp_kept config en w" using Ret Inl by (simp add: tmp_kept_def)
      ultimately show ?thesis using early [OF grows_refl] by auto
    next
      case (Inr binPath)
      obtain rd w1 where m:
        "(if Dir config = [] then os_MkdirTemp en w else (Inr (Dir config), w)) = (rd, w1)"
        by (cases "if Dir config = [] then os_MkdirTemp en w else (Inr (Dir config), w)") auto
      have g1: "grows w w1"
        using m by (auto simp: grows_refl dest: MkdirTemp_grows split: if_splits)
      show ?thesis
      proof (cases rd)
        case e: (Inl e)
        with U Ret Inr m have "r = Ret (Inl e)" "w' = w1" by simp_all
        moreover have "tmp_kept config en w1"
          using m e by (auto simp: tmp_kept_def dest: MkdirTemp_fail split: if_splits)
        ultimately show ?thesis using early [OF g1] by auto
      next
        case d: (Inr dir')
        have bd: "dir' = base_dir config en"
          using m d by (auto simp: base_dir_def dest: MkdirTemp_there split: if_splits)
        have t1: "tmp_kept config en w1"
          using m d by (auto simp: tmp_kept_def dest: MkdirTemp_there split: if_splits)
        have mono: "tmp_kept config en wb" if "grows w1 wb" for wb
          using t1 that by (auto simp: tmp_kept_def grows_def)
        let ?dataDir = "filepath_Join [dir', ''data'']"
        let ?sockDir = "filepath_Join [dir', ''sock'']"
        from U Ret Inr m d have U1:
          "(case os_MkdirAll en ?dataDir w1 of
              (Some err, w2) \<Rightarrow> (Ret (Inl err), w2)
            | (None, w2) \<Rightarrow>
           (case os_MkdirAll en ?sockDir w2 of
              (Some err, w3) \<Rightarrow> (Ret (Inl err), w3)
            | (None, w3) \<Rightarrow>
           (case cmd_CombinedOutput en
                   (prepareCommand en (filepath_Join [binPath, ''initdb''])
                      [''-D'', ?dataDir, ''--no-sync'', ''--username=test'']) w3 of
              ((out, Some err), w4) \<Rightarrow>
                (Ret (Inl (''Failed to initialize DB: '' @ err @ '' -> '' @ out)), w4)
            | ((out, None), w4) \<Rightarrow>
           (case cmd_StderrPipe en w4 of
              (Some err, w5) \<Rightarrow> (Ret (Inl err), w5)
            | (None, w5) \<Rightarrow>
           (case cmd_StdoutPipe en w5 of
              (Some err, w6) \<Rightarrow> (Ret (Inl err), stream_Close StderrPipe w6)
            | (None, w6) \<Rightarrow>
           (case cmd_Start en
                   (prepareCommand en (filepath_Join [binPath, ''postgres''])
                      ([''-D'', ?dataDir, ''-k'', ?sockDir, ''-h'', [], ''-F'']
                         @ AdditionalArgs config)) w6 of
              (Some err, w7) \<Rightarrow>
                fail_with (abort en ''Failed to start PostgreSQL''
                   (prepareCommand en (filepath_Join [binPath, ''postgres''])
                      ([''-D'', ?dataDir, ''-k'', ?sockDir, ''-h'', [], ''-F'']
                         @ AdditionalArgs config)) StderrPipe StdoutPipe err w7)
            | (None, w7) \<Rightarrow>
                Start_connect en dir' ?sockDir
                   (prepareCommand en (filepath_Join [binPath, ''postgres''])
                      ([''-D'', ?dataDir, ''-k'', ?sockDir, ''-h'', [], ''-F'']
                         @ AdditionalArgs config)) w7)))))) = (r, w')"
          by simp
        obtain r2 w2 where m2: "os_MkdirAll en ?dataDir w1 = (r2, w2)"
          by (cases "os_MkdirAll en ?dataDir w1") auto
        have g2: "grows w1 w2" using m2 by (rule MkdirAll_grows)
        show ?thesis
        proof (cases r2)
          case (Some e2)
          with U1 m2 have "r = Ret (Inl e2)" "w' = w2" by simp_all
          then show ?thesis
            using early [OF grows_trans [OF g1 g2] mono [OF g2]] by auto
        next
          case n2: None
          obtain r3 w3 where m3: "os_MkdirAll en ?sockDir w2 = (r3, w3)"
            by (cases "os_MkdirAll en ?sockDir w2") auto
          have g3: "grows w1 w3"
            using m3 g2 by (blast intro: grows_trans MkdirAll_grows)
          show ?thesis
          proof (cases r3)
            case (Some e3)
            with U1 m2 n2 m3 have "r = Ret (Inl e3)" "w' = w3" by simp_all
            then show ?thesis
              using early [OF grows_trans [OF g1 g3] mono [OF g3]] by auto
          next
            case n3: None
            let ?init = "prepareCommand en (filepath_Join [binPath, ''initdb''])
                      [''-D'', ?dataDir, ''--no-sync'', ''--username=test'']"
            obtain out r4 w4 where m4: "cmd_CombinedOutput en ?init w3 = ((out, r4), w4)"
              by (cases "cmd_CombinedOutput en ?init w3") auto
            have g4: "grows w1 w4"
              using m4 g3 by (blast intro: grows_trans CombinedOutput_grows)
            show ?thesis
            proof (cases r4)
              case (Some e4)
              with U1 m2 n2 m3 n3 m4
              have "r = Ret (Inl (''Failed to initialize DB: '' @ e4 @ '' -> '' @ out))" "w' = w4"
                by simp_all
              then show ?thesis
                using early [OF grows_trans [OF g1 g4] mono [OF g4]] by auto
            next
              case n4: None
              obtain r5 w5 where m5: "cmd_StderrPipe en w4 = (r5, w5)"
                by (cases "cmd_StderrPipe en w4") auto
              have g5: "grows w1 w5"
                using m5 g4 by (blast intro: grows_trans StderrPipe_grows)
              show ?thesis
              proof (cases r5)
                case (Some e5)
                with U1 m2 n2 m3 n3 m4 n4 m5 have "r = Ret (Inl e5)" "w' = w5" by simp_all
                then show ?thesis
                  using early [OF grows_trans [OF g1 g5] mono [OF g5]] by auto
              next
                case n5: None
                obtain r6 w6 where m6: "cmd_StdoutPipe en w5 = (r6, w6)"
                  by (cases "cmd_StdoutPipe en w5") auto
                have g6: "grows w1 w6"
                  using m6 g5 by (blast intro: grows_trans StdoutPipe_grows)
                show ?thesis
                proof (cases r6)
                  case (Some e6)
                  with U1 m2 n2 m3 n3 m4 n4 m5 n5 m6
                  have "r = Ret (Inl e6)" "w' = stream_Close StderrPipe w6" by simp_all
                  moreover have "grows w1 (stream_Close StderrPipe w6)"
                    using g6 stream_Close_grows by (blast intro: grows_trans)
                  ultimately show ?thesis
                    using early [OF grows_trans [OF g1] mono] by auto
                next
                  case n6: None
                  let ?c = "prepareCommand en (filepath_Join [binPath, ''postgres''])
                      ([''-D'', ?dataDir, ''-k'', ?sockDir, ''-h'', [], ''-F'']
                         @ AdditionalArgs config)"
                  have args: "tl (Args ?c) = server_args config en"
                    by (simp add: prepareCommand_def server_args_def bd)
                  obtain r7 w7 where m7: "cmd_Start en ?c w6 = (r7, w7)"
                    by (cases "cmd_Start en ?c w6") auto
                  have p6: "proc w6 = NotStarted" "set (fs w) \<subseteq> set (fs w6)"
                           "tmp_kept config en w6"
                           "\<forall>c. EvStart c \<in> set (trace w6) \<longrightarrow> EvStart c \<in> set (trace w)"
                    using grows_trans [OF g1 g6] mono [OF g6] ns by (auto simp: grows_def)
                  from cmd_Start_fresh [OF p6(1) m7]
                  have f7: "fs w7 = fs w6" "trace w7 = trace w6 @ [EvStart ?c]"
                    and pr7: "case r7 of None \<Rightarrow> proc w7 = Running | Some e \<Rightarrow> proc w7 = NotStarted"
                    by simp_all
                  have k7: "set (fs w) \<subseteq> set (fs w7)" "tmp_kept config en w7"
                           "starts_ok config en w w7"
                    using p6 f7 args by (auto simp: tmp_kept_def starts_ok_def)
                  have st: "EvStart ?c \<in> set (trace w7)"
                    using f7 by simp
                  show ?thesis
                  proof (cases r7)
                    case (Some e7)
                    with pr7 have q: "proc w7 = NotStarted" by simp
                    from U1 m2 n2 m3 n3 m4 n4 m5 n5 m6 n6 m7 Some
                    have "fail_with (abort en ''Failed to start PostgreSQL'' ?c
                             StderrPipe StdoutPipe e7 w7) = (r, w')"
                      by simp
                    then have "r = Panic ''invalid memory address or nil pointer dereference''"
                              "w' = w7"
                      by (simp_all add: abort_not_started [OF q] fail_with_Panic)
                    then show ?thesis using q k7 by auto
                  next
                    case n7: None
                    with pr7 have q: "proc w7 = Running" by simp
                    from U1 m2 n2 m3 n3 m4 n4 m5 n5 m6 n6 m7 n7
                    have "Start_connect en dir' ?sockDir ?c w7 = (r, w')"
                      by simp
                    then have "?B"
                      using q k7 args bd st by blast
                    then show ?thesis ..
                  qed
                qed
              qed
            qed
          qed
        qed
      qed
    qed
  qed
qed

subsection \<open>The stages of \<^verbatim>\<open>Stop\<close>\<close>

lemma Stop_body_error:
  "(fst (Stop_body en p w) = Ret (Some err)) = (fst (Process_Signal en Interrupt w) = Ret (Some err))"
  by (auto simp: Stop_body_def Let_def split: prod.splits outcome.splits option.splits)

lemma Stop_body_error_world:
  "fst (Process_Signal en Interrupt w) = Ret (Some err) \<Longrightarrow>
   Stop_body en p w = (Ret (Some err), emit (EvSignal Interrupt) w)"
  by (auto simp: Stop_body_def Process_Signal_def split: proc_state.splits)

lemma Stop_Some:
  "Stop en (Some p) w =
     (fst (Stop_body en p (pool_Close (Pool p) w)),
      os_RemoveAll en (dir p) (snd (Stop_body en p (pool_Close (Pool p) w))))"
  by (simp add: Stop_def Let_def split: prod.splits)

lemma RemoveAll_trace: "trace (os_RemoveAll en d w) = trace w @ [EvRemoveAll d]"
  by (simp add: os_RemoveAll_def emit_def)

lemma RemoveAll_gone:
  "d \<noteq> [] \<Longrightarrow> remove_all_ok en d \<Longrightarrow> \<forall>q\<in>set (fs (os_RemoveAll en d w)). \<not> in_tree d q"
  by (simp add: os_RemoveAll_def emit_def)

subsection \<open>Teardown\<close>

text \<open>
  Claim C2, as amended. \<^verbatim>\<open>Stop\<close> returns an error exactly when sending the interrupt
  signal fails, and the error is the signal's. In that case it returns at once: the
  calls it has made are closing the pool, the signal and the deferred removal of the
  base directory, and nothing else (no wait, no kill, no socket cleanup, no closing of
  the two streams).
\<close>

theorem Stop_error_iff_signal_fails:
  "(fst (Stop en (Some p) w) = Ret (Some err))
     = (fst (Process_Signal en Interrupt (pool_Close (Pool p) w)) = Ret (Some err))
   \<and> (fst (Stop en (Some p) w) = Ret (Some err) \<longrightarrow>
        trace (snd (Stop en (Some p) w))
          = trace w @ [EvPoolClose (Pool p), EvSignal Interrupt, EvRemoveAll (dir p)])"
proof (intro conjI impI)
  show "(fst (Stop en (Some p) w) = Ret (Some err))
     = (fst (Process_Signal en Interrupt (pool_Close (Pool p) w)) = Ret (Some err))"
    by (simp add: Stop_Some Stop_body_error)
next
  assume "fst (Stop en (Some p) w) = Ret (Some err)"
  then have "fst (Process_Signal en Interrupt (pool_Close (Pool p) w)) = Ret (Some err)"
    by (simp add: Stop_Some Stop_body_error)
  from Stop_body_error_world [OF this]
  have "snd (Stop_body en p (pool_Close (Pool p) w))
          = emit (EvSignal Interrupt) (pool_Close (Pool p) w)"
    by simp
  then have "snd (Stop en (Some p) w)
          = os_RemoveAll en (dir p) (emit (EvSignal Interrupt) (pool_Close (Pool p) w))"
    by (simp add: Stop_Some)
  then show "trace (snd (Stop en (Some p) w))
          = trace w @ [EvPoolClose (Pool p), EvSignal Interrupt, EvRemoveAll (dir p)]"
    by (simp add: RemoveAll_trace emit_def pool_Close_def)
qed

text \<open>
  Claim C10. When \<^verbatim>\<open>Stop\<close> returns the error of the signal, the deferred
  \<^verbatim>\<open>os.RemoveAll(p.dir)\<close> has still run after the signal, as the last call; when the
  machine carries the removal out (its result is dropped by the source), no path in
  the tree of the base directory is left, the data and the socket directory included.
\<close>

theorem Stop_error_still_removes:
  assumes "Stop en (Some p) w = (Ret (Some err), w')"
  shows "(\<exists>t. trace w' = t @ [EvSignal Interrupt, EvRemoveAll (dir p)])
         \<and> (dir p \<noteq> [] \<and> remove_all_ok en (dir p) \<longrightarrow> (\<forall>q\<in>set (fs w'). \<not> in_tree (dir p) q))"
proof -
  let ?w0 = "pool_Close (Pool p) w"
  from assms have f: "fst (Stop_body en p ?w0) = Ret (Some err)"
    and w': "w' = os_RemoveAll en (dir p) (snd (Stop_body en p ?w0))"
    by (simp_all add: Stop_Some)
  from f have "fst (Process_Signal en Interrupt ?w0) = Ret (Some err)"
    by (simp add: Stop_body_error)
  from Stop_body_error_world [OF this]
  have b: "snd (Stop_body en p ?w0) = emit (EvSignal Interrupt) ?w0"
    by simp
  have "w' = os_RemoveAll en (dir p) (emit (EvSignal Interrupt) ?w0)"
    using w' b by simp
  then have "trace w' = (trace w @ [EvPoolClose (Pool p)]) @ [EvSignal Interrupt, EvRemoveAll (dir p)]"
    by (simp add: RemoveAll_trace emit_def pool_Close_def)
  moreover have "dir p \<noteq> [] \<and> remove_all_ok en (dir p) \<longrightarrow> (\<forall>q\<in>set (fs w'). \<not> in_tree (dir p) q)"
    using RemoveAll_gone w' by blast
  ultimately show ?thesis by blast
qed

text \<open>
  Claim C4, as amended. \<^verbatim>\<open>Stop\<close> on a nil handle changes nothing and returns nil.
  On an instance whose server process has already been waited for (a second call of
  \<^verbatim>\<open>Stop\<close>) it is not a no-op and does not return nil: it closes the pool again,
  the interrupt signal fails with \<^verbatim>\<open>os: process already finished\<close>, the base
  directory is removed again, and that error is returned.
\<close>

theorem Stop_nil_or_finished:
  "Stop en None w = (Ret None, w)
   \<and> (proc w = Finished \<longrightarrow>
        Stop en (Some p) w =
          (Ret (Some ''os: process already finished''),
           os_RemoveAll en (dir p) (emit (EvSignal Interrupt) (pool_Close (Pool p) w))))"
proof (intro conjI impI)
  show "Stop en None w = (Ret None, w)"
    by (simp add: Stop_def)
next
  assume "proc w = Finished"
  then have "fst (Process_Signal en Interrupt (pool_Close (Pool p) w))
               = Ret (Some ''os: process already finished'')"
    by (simp add: Process_Signal_def pool_Close_def emit_def)
  from Stop_body_error_world [OF this]
  show "Stop en (Some p) w =
          (Ret (Some ''os: process already finished''),
           os_RemoveAll en (dir p) (emit (EvSignal Interrupt) (pool_Close (Pool p) w)))"
    by (simp add: Stop_Some)
qed

theorem Stop_error_iff_signal_fails_witness:
  "fst (Stop env_ok (Some pg0) (snd stopped_once)) = Ret (Some ''os: process already finished'')
   \<and> fst (Process_Signal env_ok Interrupt (pool_Close (Pool pg0) (snd stopped_once)))
       = Ret (Some ''os: process already finished'')
   \<and> trace (snd (Stop env_ok (Some pg0) (snd stopped_once)))
       = trace (snd stopped_once) @ [EvPoolClose (Pool pg0), EvSignal Interrupt, EvRemoveAll (dir pg0)]"
proof -
  have h: "fst (Stop env_ok (Some pg0) (snd stopped_once)) = Ret (Some ''os: process already finished'')"
    by code_simp
  from Stop_error_iff_signal_fails [of env_ok pg0 "snd stopped_once" "''os: process already finished''"] h
  show ?thesis by blast
qed

text \<open>
  Claim C2 as stated fails: in a second \<^verbatim>\<open>Stop\<close> the signal fails, and the calls
  made are only the pool close, the signal and the removal; neither stream is closed.
\<close>

theorem Stop_signal_failure_skips_cleanup_counterexample:
  "fst started = Ret (Inr pg0)
   \<and> fst stopped_once = Ret None
   \<and> fst (Stop env_ok (Some pg0) (snd stopped_once)) = Ret (Some ''os: process already finished'')
   \<and> drop (length (trace (snd stopped_once))) (trace (snd (Stop env_ok (Some pg0) (snd stopped_once))))
       = [EvPoolClose (Pool pg0), EvSignal Interrupt, EvRemoveAll (dir pg0)]"
  by code_simp

text \<open>
  Claim C4 as stated fails: a second \<^verbatim>\<open>Stop\<close> returns an error and changes the world.
\<close>

theorem Stop_twice_counterexample:
  "fst started = Ret (Inr pg0)
   \<and> fst stopped_once = Ret None
   \<and> proc (snd stopped_once) = Finished
   \<and> fst (Stop env_ok (Some pg0) (snd stopped_once)) \<noteq> Ret None
   \<and> snd (Stop env_ok (Some pg0) (snd stopped_once)) \<noteq> snd stopped_once"
  by code_simp

theorem Stop_nil_or_finished_witness:
  "Stop env_ok None world0 = (Ret None, world0)
   \<and> proc (snd stopped_once) = Finished
   \<and> Stop env_ok (Some pg0) (snd stopped_once) =
          (Ret (Some ''os: process already finished''),
           os_RemoveAll env_ok (dir pg0)
             (emit (EvSignal Interrupt) (pool_Close (Pool pg0) (snd stopped_once))))"
proof -
  have h: "proc (snd stopped_once) = Finished"
    by code_simp
  from Stop_nil_or_finished [of env_ok world0] Stop_nil_or_finished [of env_ok "snd stopped_once" pg0] h
  show ?thesis by blast
qed

theorem Stop_error_still_removes_witness:
  "fst (Stop env_signal_fails (Some pg0) (snd started)) = Ret (Some ''operation not permitted'')
   \<and> ''/tmp/pgxtest1/data'' \<in> set (fs (snd started))
   \<and> ''/tmp/pgxtest1/sock'' \<in> set (fs (snd started))
   \<and> in_tree ''/tmp/pgxtest1'' ''/tmp/pgxtest1/data''
   \<and> in_tree ''/tmp/pgxtest1'' ''/tmp/pgxtest1/sock''
   \<and> (\<exists>t. trace (snd (Stop env_signal_fails (Some pg0) (snd started)))
             = t @ [EvSignal Interrupt, EvRemoveAll ''/tmp/pgxtest1''])
   \<and> filter (in_tree ''/tmp/pgxtest1'') (fs (snd (Stop env_signal_fails (Some pg0) (snd started))))
       = []"
proof -
  let ?S = "Stop env_signal_fails (Some pg0) (snd started)"
  have f: "fst ?S = Ret (Some ''operation not permitted'')"
    by code_simp
  then have h: "?S = (Ret (Some ''operation not permitted''), snd ?S)"
    by (metis prod.collapse)
  have a: "''/tmp/pgxtest1/data'' \<in> set (fs (snd started))"
          "''/tmp/pgxtest1/sock'' \<in> set (fs (snd started))"
          "in_tree ''/tmp/pgxtest1'' ''/tmp/pgxtest1/data''"
          "in_tree ''/tmp/pgxtest1'' ''/tmp/pgxtest1/sock''"
    by code_simp+
  have d: "dir pg0 = ''/tmp/pgxtest1''" "remove_all_ok env_signal_fails ''/tmp/pgxtest1''"
    by (simp_all add: pg0_def env_signal_fails_def env_ok_def)
  from Stop_error_still_removes [OF h] d f a
  show ?thesis by (simp add: filter_empty_conv)
qed

subsection \<open>Provisioning\<close>

lemma Start_success_handle:
  assumes ns: "proc w = NotStarted"
    and res: "Start config en w = (Ret (Inr pg), w')"
  shows "dir pg = base_dir config en \<and> tl (Args (cmd pg)) = server_args config en
         \<and> EvStart (cmd pg) \<in> set (trace w')"
proof -
  from Start_reaches [OF ns res] obtain w7 c where
    b: "proc w7 = Running" "tl (Args c) = server_args config en" "EvStart c \<in> set (trace w7)"
       "Start_connect en (base_dir config en)
          (filepath_Join [base_dir config en, ''sock'']) c w7 = (Ret (Inr pg), w')"
    by auto
  from Start_connect_cases [OF b(1) b(4)] obtain ts where
    "trace w' = trace w7 @ ts"
    "pg = \<lparr>dir = base_dir config en, cmd = c,
           Pool = db_url (filepath_Join [base_dir config en, ''sock'']) ''test'',
           Host = filepath_Join [base_dir config en, ''sock''], User = ''test'',
           Name = ''test'', stderr = Some StderrPipe, stdout = Some StdoutPipe\<rparr>"
    by auto
  with b show ?thesis by simp
qed



text \<open>
  Claim C3, as amended. Whenever \<^verbatim>\<open>Start\<close> returns an error, no server process is
  left running. \<^verbatim>\<open>Start\<close> removes nothing from disk: every path that existed before
  is still there, and an auto-allocated temporary directory, once created, remains.
\<close>

theorem Start_error_leaves_dir:
  assumes "proc w = NotStarted"
    and "Start config en w = (Ret (Inl e), w')"
  shows "proc w' \<noteq> Running \<and> set (fs w) \<subseteq> set (fs w')
         \<and> (\<forall>d b. Dir config = [] \<and> mkdir_temp en = Inr d
                    \<and> findBinPath en (BinDir config) = Ret (Inr b) \<longrightarrow> d \<in> set (fs w'))"
proof -
  from Start_reaches [OF assms]
  have "proc w' \<noteq> Running \<and> set (fs w) \<subseteq> set (fs w') \<and> tmp_kept config en w'"
  proof
    assume "proc w' = NotStarted \<and> (\<forall>pg. Ret (Inl e) \<noteq> Ret (Inr pg)) \<and> set (fs w) \<subseteq> set (fs w')
            \<and> tmp_kept config en w' \<and> starts_ok config en w w'"
    then show ?thesis by simp
  next
    assume "\<exists>w7 c. proc w7 = Running \<and> set (fs w) \<subseteq> set (fs w7)
            \<and> tmp_kept config en w7 \<and> starts_ok config en w w7
            \<and> tl (Args c) = server_args config en \<and> EvStart c \<in> set (trace w7)
            \<and> Start_connect en (base_dir config en)
                 (filepath_Join [base_dir config en, ''sock'']) c w7 = (Ret (Inl e), w')"
    then obtain w7 c where
      b: "proc w7 = Running" "set (fs w) \<subseteq> set (fs w7)" "tmp_kept config en w7"
         "Start_connect en (base_dir config en)
            (filepath_Join [base_dir config en, ''sock'']) c w7 = (Ret (Inl e), w')"
      by blast
    from Start_connect_cases [OF b(1) b(4)]
    have "fs w' = fs w7" "proc w' = Finished"
      by auto
    with b show ?thesis by (simp add: tmp_kept_def)
  qed
  then show ?thesis by (simp add: tmp_kept_def)
qed

theorem Start_error_leaves_dir_witness:
  "proc world0 = NotStarted
   \<and> Dir config0 = []
   \<and> fst (Start config0 env_pool_fails world0)
       = Ret (Inl (abort_error ''Failed to connect to test DB'' ''dial error''))
   \<and> proc (snd (Start config0 env_pool_fails world0)) \<noteq> Running
   \<and> set (fs world0) \<subseteq> set (fs (snd (Start config0 env_pool_fails world0)))
   \<and> ''/tmp/pgxtest1'' \<in> set (fs (snd (Start config0 env_pool_fails world0)))"
proof -
  let ?S = "Start config0 env_pool_fails world0"
  let ?e = "abort_error ''Failed to connect to test DB'' ''dial error''"
  have f: "fst ?S = Ret (Inl ?e)"
    by code_simp
  then have h: "?S = (Ret (Inl ?e), snd ?S)"
    by (metis prod.collapse)
  have ns: "proc world0 = NotStarted" and d: "Dir config0 = []"
    by (simp_all add: world0_def config0_def)
  have m: "mkdir_temp env_pool_fails = Inr ''/tmp/pgxtest1''"
    by (simp add: env_pool_fails_def env_ok_def)
  have b: "findBinPath env_pool_fails (BinDir config0) = Ret (Inr ''/usr/bin'')"
    by code_simp
  from Start_error_leaves_dir [OF ns h] d m b f ns
  show ?thesis by blast
qed

text \<open>
  Claim C3 as stated fails: with \<^verbatim>\<open>Config.Dir\<close> empty and \<^verbatim>\<open>initdb\<close> failing,
  \<^verbatim>\<open>Start\<close> returns the error, the temporary directory it created is still on disk,
  and no removal has been attempted.
\<close>

theorem Start_error_leaves_tmp_counterexample:
  "Dir config0 = []
   \<and> fst (Start config0 env_initdb_fails world0)
       = Ret (Inl ''Failed to initialize DB: exit status 1 -> initdb: could not create directory'')
   \<and> ''/tmp/pgxtest1'' \<notin> set (fs world0)
   \<and> ''/tmp/pgxtest1'' \<in> set (fs (snd (Start config0 env_initdb_fails world0)))
   \<and> filter (\<lambda>ev. case ev of EvRemoveAll p \<Rightarrow> True | EvRemove p \<Rightarrow> True | _ \<Rightarrow> False)
        (trace (snd (Start config0 env_initdb_fails world0))) = []"
  by code_simp

text \<open>
  Claim C1, as amended. \<^verbatim>\<open>Stop\<close> on the handle \<^verbatim>\<open>Start\<close> returned always ends
  with \<^verbatim>\<open>os.RemoveAll\<close> of the base directory, which is \<^verbatim>\<open>Config.Dir\<close> when the
  caller supplied one: a caller-supplied directory is removed in the same way as an
  auto-allocated one (when the machine carries the removal out, nothing of its tree
  remains).
\<close>

theorem Stop_removes_base_dir:
  assumes "proc w = NotStarted"
    and "Start config en w = (Ret (Inr pg), w1)"
    and "Stop en (Some pg) w2 = (r, w3)"
  shows "dir pg = base_dir config en
         \<and> (Dir config \<noteq> [] \<longrightarrow> dir pg = Dir config)
         \<and> (\<exists>t. trace w3 = t @ [EvRemoveAll (dir pg)])
         \<and> (dir pg \<noteq> [] \<and> remove_all_ok en (dir pg) \<longrightarrow> (\<forall>q\<in>set (fs w3). \<not> in_tree (dir pg) q))"
proof -
  have d: "dir pg = base_dir config en"
    using Start_success_handle [OF assms(1,2)] by simp
  have w3: "w3 = os_RemoveAll en (dir pg) (snd (Stop_body en pg (pool_Close (Pool pg) w2)))"
    using assms(3) by (simp add: Stop_Some)
  have "\<exists>t. trace w3 = t @ [EvRemoveAll (dir pg)]"
    by (simp add: w3 RemoveAll_trace)
  moreover have "dir pg \<noteq> [] \<and> remove_all_ok en (dir pg) \<longrightarrow> (\<forall>q\<in>set (fs w3). \<not> in_tree (dir pg) q)"
    using RemoveAll_gone w3 by blast
  ultimately show ?thesis
    using d by (simp add: base_dir_def)
qed

theorem Stop_removes_base_dir_witness:
  "Dir config_dir = ''/srv/pgdata''
   \<and> fst started_dir = Ret (Inr pg_dir)
   \<and> dir pg_dir = ''/srv/pgdata''
   \<and> (\<exists>t. trace (snd (Stop env_ok (Some pg_dir) (snd started_dir))) = t @ [EvRemoveAll ''/srv/pgdata''])
   \<and> filter (in_tree ''/srv/pgdata'') (fs (snd (Stop env_ok (Some pg_dir) (snd started_dir)))) = []"
proof -
  let ?T = "Stop env_ok (Some pg_dir) (snd started_dir)"
  have f: "fst started_dir = Ret (Inr pg_dir)"
    by code_simp
  then have h: "Start config_dir env_ok world_dir = (Ret (Inr pg_dir), snd started_dir)"
    unfolding started_dir_def by (metis prod.collapse)
  have ns: "proc world_dir = NotStarted"
    by (simp add: world_dir_def)
  have t: "?T = (fst ?T, snd ?T)"
    by simp
  have c: "Dir config_dir = ''/srv/pgdata''" "dir pg_dir = ''/srv/pgdata''"
          "remove_all_ok env_ok ''/srv/pgdata''"
    by (simp_all add: config_dir_def pg_dir_def env_ok_def)
  from Stop_removes_base_dir [OF ns h t, THEN conjunct2, THEN conjunct2]
  have "(\<exists>t. trace (snd ?T) = t @ [EvRemoveAll (dir pg_dir)])
        \<and> (dir pg_dir \<noteq> [] \<and> remove_all_ok env_ok (dir pg_dir)
             \<longrightarrow> (\<forall>q\<in>set (fs (snd ?T)). \<not> in_tree (dir pg_dir) q))"
    by simp
  with c f show ?thesis by (simp add: filter_empty_conv)
qed

text \<open>
  Claim C1 as stated fails: the caller's directory \<^verbatim>\<open>/srv/pgdata\<close> exists before
  \<^verbatim>\<open>Start\<close> and after it, and is gone after \<^verbatim>\<open>Stop\<close>.
\<close>

theorem Stop_removes_supplied_dir_counterexample:
  "Dir config_dir = ''/srv/pgdata''
   \<and> ''/srv/pgdata'' \<in> set (fs world_dir)
   \<and> fst started_dir = Ret (Inr pg_dir)
   \<and> ''/srv/pgdata'' \<in> set (fs (snd started_dir))
   \<and> fst (Stop env_ok (Some pg_dir) (snd started_dir)) = Ret None
   \<and> ''/srv/pgdata'' \<notin> set (fs (snd (Stop env_ok (Some pg_dir) (snd started_dir))))"
  by code_simp

subsection \<open>Failures after the spawn\<close>

lemma Start_spawns:
  assumes ns: "proc w = NotStarted"
    and ok: "spawn_ok config en b"
  shows "Start config en w =
           Start_connect en (base_dir config en) (filepath_Join [base_dir config en, ''sock''])
             (server_cmd config en b) (spawned config en b w)
         \<and> proc (spawned config en b w) = Running
         \<and> n_acquire (spawned config en b w) = n_acquire w"
proof -
  define D where "D = base_dir config en"
  define dataDir where "dataDir = filepath_Join [D, ''data'']"
  define sockDir where "sockDir = filepath_Join [D, ''sock'']"
  define init where "init = prepareCommand en (filepath_Join [b, ''initdb''])
                              [''-D'', dataDir, ''--no-sync'', ''--username=test'']"
  define c where "c = server_cmd config en b"
  define w1 where "w1 = (if Dir config = [] then snd (os_MkdirTemp en w) else w)"
  define w2 where "w2 = snd (os_MkdirAll en dataDir w1)"
  define w3 where "w3 = snd (os_MkdirAll en sockDir w2)"
  define w4 where "w4 = snd (cmd_CombinedOutput en init w3)"
  define w5 where "w5 = snd (cmd_StderrPipe en w4)"
  define w6 where "w6 = snd (cmd_StdoutPipe en w5)"
  define w7 where "w7 = snd (cmd_Start en c w6)"
  note ok' = ok [unfolded spawn_ok_def, folded D_def, folded dataDir_def sockDir_def, folded init_def]
  have fb: "findBinPath en (BinDir config) = Ret (Inr b)"
    using ok' by simp
  have e1: "(if Dir config = [] then os_MkdirTemp en w else (Inr (Dir config), w)) = (Inr D, w1)"
  proof (cases "Dir config = []")
    case True
    with ok' have "mkdir_temp en = Inr D" by simp
    with True show ?thesis by (simp add: w1_def os_MkdirTemp_def)
  next
    case False
    then show ?thesis by (simp add: w1_def D_def base_dir_def)
  qed
  have p1: "proc w1 = NotStarted" "n_acquire w1 = n_acquire w"
    using ns by (auto simp: w1_def os_MkdirTemp_def emit_def split: sum.splits)
  have e2: "os_MkdirAll en dataDir w1 = (None, w2)"
    using ok' by (simp add: w2_def os_MkdirAll_def)
  have p2: "proc w2 = NotStarted" "n_acquire w2 = n_acquire w"
    using p1 ok' by (simp_all add: w2_def os_MkdirAll_def emit_def)
  have e3: "os_MkdirAll en sockDir w2 = (None, w3)"
    using ok' by (simp add: w3_def os_MkdirAll_def)
  have p3: "proc w3 = NotStarted" "n_acquire w3 = n_acquire w"
    using p2 ok' by (simp_all add: w3_def os_MkdirAll_def emit_def)
  have e4: "cmd_CombinedOutput en init w3 = ((fst (combined_output en init), None), w4)"
    using ok' by (simp add: w4_def cmd_CombinedOutput_def prod_eq_iff)
  have p4: "proc w4 = NotStarted" "n_acquire w4 = n_acquire w"
    using p3 by (simp_all add: w4_def cmd_CombinedOutput_def emit_def)
  have e5: "cmd_StderrPipe en w4 = (None, w5)"
    using ok' by (simp add: w5_def cmd_StderrPipe_def)
  have p5: "proc w5 = NotStarted" "n_acquire w5 = n_acquire w"
    using p4 ok' by (simp_all add: w5_def cmd_StderrPipe_def emit_def)
  have e6: "cmd_StdoutPipe en w5 = (None, w6)"
    using ok' by (simp add: w6_def cmd_StdoutPipe_def)
  have p6: "proc w6 = NotStarted" "n_acquire w6 = n_acquire w"
    using p5 ok' by (simp_all add: w6_def cmd_StdoutPipe_def emit_def)
  have e7: "cmd_Start en c w6 = (None, w7)"
    using ok' p6 by (simp add: w7_def cmd_Start_def)
  have p7: "proc w7 = Running" "n_acquire w7 = n_acquire w"
    using p6 ok' by (simp_all add: w7_def cmd_Start_def emit_def)
  have cc: "prepareCommand en (filepath_Join [b, ''postgres''])
              (''-D'' # filepath_Join [D, ''data''] # ''-k'' # filepath_Join [D, ''sock'']
                 # ''-h'' # [] # ''-F'' # AdditionalArgs config) = c"
    by (simp add: c_def server_cmd_def server_args_def D_def)
  have sp: "spawned config en b w = w7"
    unfolding spawned_def Let_def w7_def w6_def w5_def w4_def w3_def w2_def w1_def
              init_def c_def dataDir_def sockDir_def D_def
    by simp
  have "Start config en w = Start_connect en D sockDir c w7"
    unfolding Start_unfold Let_def
    by (simp add: fb e1 e2 [unfolded dataDir_def] e3 [unfolded sockDir_def]
                  e4 [unfolded init_def dataDir_def] e5 e6
                  cc e7 sockDir_def)
  then show ?thesis
    using p7 by (simp add: sp D_def sockDir_def c_def)
qed


lemma Start_connect_forward:
  assumes run: "proc w7 = Running"
  shows "Start_connect en d sd c w7 =
     (case parse_config en (db_url sd ''postgres'') of
        Some e \<Rightarrow> aborted ''Failed to create pgx pool config'' e w7
      | None \<Rightarrow>
     (case new_pool en (db_url sd ''postgres'') of
        Some e \<Rightarrow>
          aborted ''Failed to connect to postgres DB'' e
            (w7\<lparr>trace := trace w7 @ [EvNewPool (db_url sd ''postgres'')]\<rparr>)
      | None \<Rightarrow>
     (case createTestDB en (db_url sd ''postgres'')
             (w7\<lparr>trace := trace w7 @ [EvNewPool (db_url sd ''postgres'')]\<rparr>) of
        (Some e, w9) \<Rightarrow> aborted ''Failed to create test DB'' e w9
      | (None, w9) \<Rightarrow>
     (case parse_config en (db_url sd ''test'') of
        Some e \<Rightarrow>
          aborted ''Failed to create pgx pool config'' e
            (w9\<lparr>trace := trace w9 @ [EvPoolClose (db_url sd ''postgres'')]\<rparr>)
      | None \<Rightarrow>
     (case new_pool en (db_url sd ''test'') of
        Some e \<Rightarrow>
          aborted ''Failed to connect to test DB'' e
            (w9\<lparr>trace := trace w9 @ [EvPoolClose (db_url sd ''postgres''),
                                      EvNewPool (db_url sd ''test'')]\<rparr>)
      | None \<Rightarrow>
          (Ret (Inr \<lparr>dir = d, cmd = c, Pool = db_url sd ''test'', Host = sd, User = ''test'',
                     Name = ''test'', stderr = Some StderrPipe, stdout = Some StdoutPipe\<rparr>),
           w9\<lparr>trace := trace w9 @ [EvPoolClose (db_url sd ''postgres''),
                                     EvNewPool (db_url sd ''test'')]\<rparr>))))))"
proof -
  let ?u = "db_url sd ''postgres''"
  let ?w8 = "w7\<lparr>trace := trace w7 @ [EvNewPool ?u]\<rparr>"
  obtain r9 w9 where c9: "createTestDB en ?u ?w8 = (r9, w9)"
    by (cases "createTestDB en ?u ?w8") auto
  have k9: "proc w9 = Running"
    using createTestDB_keeps [OF c9] run by simp
  show ?thesis
    using run k9 c9
    by (simp add: Start_connect_def postgresqlDBConf_eq NewWithConfig_eq pool_Close_eq
                  abort_running fail_with_Ret aborted_def
             split: option.splits)
qed

text \<open>
  Claim C7 on the code. Every failure after the spawn does go through \<^verbatim>\<open>abort\<close>
  and comes back with the site's message and the error of the failed call (lemmas
  \<open>Start_spawns\<close> and \<open>Start_connect_forward\<close>, for every machine). But
  \<^verbatim>\<open>abort\<close> reads the two pipes only after \<^verbatim>\<open>cmd.Wait\<close>, which has closed them:
  on a machine whose server writes a fatal message to stderr and exits, so that no
  connection is ever accepted, the error \<^verbatim>\<open>Start\<close> returns has nothing after
  \<^verbatim>\<open>OUT:\<close> and \<^verbatim>\<open>ERR:\<close>; the server's message is not in it.
\<close>

theorem Start_abort_loses_server_output:
  "AdditionalArgs config_bogus = [''-c'', ''bogus=1'']
   \<and> read_all env_server_dies StderrPipe = ''FATAL: unrecognized configuration parameter bogus''
   \<and> fst (Start config_bogus env_server_dies world0)
       = Ret (Inl (''Failed to create test DB: connection refused'' @ nl @ ''OUT: '' @ nl
                   @ ''ERR: ''))
   \<and> proc (snd (Start config_bogus env_server_dies world0)) = Finished
   \<and> suffix abort_events (trace (snd (Start config_bogus env_server_dies world0)))"
proof -
  let ?en = env_server_dies
  let ?sd = "filepath_Join [base_dir config_bogus ?en, ''sock'']"
  let ?u = "db_url ?sd ''postgres''"
  let ?w7 = "spawned config_bogus ?en ''/usr/bin'' world0"
  let ?w8 = "?w7\<lparr>trace := trace ?w7 @ [EvNewPool ?u]\<rparr>"
  let ?w9 = "?w8\<lparr>n_acquire := n_acquire ?w8 + 1000, trace := trace ?w8 @ attempts_trace ?u 999\<rparr>"
  have ok: "spawn_ok config_bogus ?en ''/usr/bin''"
    by code_simp
  have ns: "proc world0 = NotStarted"
    by (simp add: world0_def)
  note S = Start_spawns [OF ns ok]
  have en: "parse_config ?en ?u = None" "new_pool ?en ?u = None"
           "\<forall>j<1000. acquire ?en (n_acquire ?w8 + j) \<noteq> None"
           "acquire ?en (n_acquire ?w8 + 999) = Some ''connection refused''"
    by (simp_all add: env_server_dies_def env_ok_def)
  from createTestDB_never_ready [OF en(3), of ?u] en(4)
  have ct: "createTestDB ?en ?u ?w8 = (Some ''connection refused'', ?w9)"
    by simp
  have "Start config_bogus ?en world0
          = aborted ''Failed to create test DB'' ''connection refused'' ?w9"
    using S Start_connect_forward [of ?w7 ?en] en(1,2) ct by simp
  then have r: "fst (Start config_bogus ?en world0)
                  = Ret (Inl (abort_error ''Failed to create test DB'' ''connection refused''))"
    and p: "proc (snd (Start config_bogus ?en world0)) = Finished"
    and t: "suffix abort_events (trace (snd (Start config_bogus ?en world0)))"
    by (simp_all add: aborted_def suffix_def)
  have a: "AdditionalArgs config_bogus = [''-c'', ''bogus=1'']"
          "read_all ?en StderrPipe = ''FATAL: unrecognized configuration parameter bogus''"
    by (simp_all add: config_bogus_def env_server_dies_def)
  from r p t a show ?thesis
    by (simp add: abort_error_def)
qed

end
